theory Spec2Isabelle
  imports Main "HOL-Library.Monad_Syntax" "HOL-Library.Sublist"
begin

section \<open>JavaScript values\<close>

text \<open>
  The editor state read by \<open>src/index.js\<close> is untyped JSON. A value of the running
  program is modelled by \<open>jsval\<close>: the six JSON shapes plus \<open>undefined\<close>, which a
  property read of a missing key produces. Numbers are integers here (tab indices, sticky
  index, line and column numbers, process ids); fractional numbers, \<open>NaN\<close> and the
  infinities are outside the model. An object is the list of its own properties in
  enumeration order, with distinct keys, as \<open>JSON.parse\<close> builds it. Strings are lists
  of characters.
\<close>

datatype jsval =
    JUndefined
  | JNull
  | JBool bool
  | JNum int
  | JStr string
  | JArr "jsval list"
  | JObj "(string \<times> jsval) list"

text \<open>Truthiness, as \<open>if (x)\<close>, \<open>x && y\<close>, \<open>x || y\<close> and \<open>!x\<close> read it.\<close>

fun truthy :: "jsval \<Rightarrow> bool" where
  "truthy JUndefined = False"
| "truthy JNull = False"
| "truthy (JBool b) = b"
| "truthy (JNum n) = (n \<noteq> 0)"
| "truthy (JStr s) = (s \<noteq> [])"
| "truthy (JArr xs) = True"
| "truthy (JObj kvs) = True"

definition js_or :: "jsval \<Rightarrow> jsval \<Rightarrow> jsval" where
  "js_or a b = (if truthy a then a else b)"

definition nullish :: "jsval \<Rightarrow> bool" where
  "nullish v = (v = JUndefined \<or> v = JNull)"

text \<open>
  \<open>a === b\<close>. Two arrays or two objects are equal only when they are the same object;
  every comparison of the source is between values taken from different places of a
  parsed document (or against a literal), so they never are.
\<close>

fun strict_eq :: "jsval \<Rightarrow> jsval \<Rightarrow> bool" where
  "strict_eq JUndefined JUndefined = True"
| "strict_eq JNull JNull = True"
| "strict_eq (JBool a) (JBool b) = (a = b)"
| "strict_eq (JNum a) (JNum b) = (a = b)"
| "strict_eq (JStr a) (JStr b) = (a = b)"
| "strict_eq _ _ = False"

text \<open>
  \<open>x.k\<close> on a value that is neither \<open>undefined\<close> nor \<open>null\<close>: an object's own
  property, \<open>undefined\<close> otherwise (none of the keys the source reads is a built-in
  member of a string, number, boolean or array).
\<close>

fun get_field :: "jsval \<Rightarrow> string \<Rightarrow> jsval" where
  "get_field (JObj kvs) k = (case map_of kvs k of None \<Rightarrow> JUndefined | Some v \<Rightarrow> v)"
| "get_field _ k = JUndefined"

text \<open>\<open>x.k\<close>: \<open>None\<close> stands for the \<open>TypeError\<close> thrown on \<open>undefined\<close> and \<open>null\<close>.\<close>

definition get_prop :: "jsval \<Rightarrow> string \<Rightarrow> jsval option" where
  "get_prop x k = (if nullish x then None else Some (get_field x k))"

text \<open>\<open>x?.k\<close>.\<close>

definition opt_prop :: "jsval \<Rightarrow> string \<Rightarrow> jsval" where
  "opt_prop x k = (if nullish x then JUndefined else get_field x k)"

text \<open>
  \<open>for (const g of x)\<close>: an array yields its elements, a string its characters; anything
  else is not iterable (\<open>None\<close>: \<open>TypeError\<close>).
\<close>

fun iterate :: "jsval \<Rightarrow> jsval list option" where
  "iterate (JArr xs) = Some xs"
| "iterate (JStr s) = Some (map (\<lambda>c. JStr [c]) s)"
| "iterate _ = None"

subsection \<open>Numbers and strings\<close>

text \<open>The character of a decimal digit \<open>d < 10\<close>.\<close>

definition digit_char :: "nat \<Rightarrow> char" where
  "digit_char d = char_of (48 + d)"

fun dec :: "nat \<Rightarrow> string" where
  "dec n = (if n < 10 then [digit_char n] else dec (n div 10) @ [digit_char (n mod 10)])"

declare dec.simps [simp del]

definition dec_int :: "int \<Rightarrow> string" where
  "dec_int i = (if i < 0 then CHR ''-'' # dec (nat (- i)) else dec (nat i))"

fun join :: "string \<Rightarrow> string list \<Rightarrow> string" where
  "join sep [] = []"
| "join sep [x] = x"
| "join sep (x # y # ys) = x @ sep @ join sep (y # ys)"

text \<open>\<open>String(x)\<close>, as a template literal and a computed property key apply it.\<close>

fun js_toString :: "jsval \<Rightarrow> string" where
  "js_toString JUndefined = ''undefined''"
| "js_toString JNull = ''null''"
| "js_toString (JBool b) = (if b then ''true'' else ''false'')"
| "js_toString (JNum n) = dec_int n"
| "js_toString (JStr s) = s"
| "js_toString (JArr xs) =
     join '','' (map (\<lambda>x. if x = JUndefined \<or> x = JNull then [] else js_toString x) xs)"
| "js_toString (JObj kvs) = ''[object Object]''"

text \<open>
  \<open>String.prototype.trim\<close>: the white space of the Latin-1 range (tab, line feed,
  vertical tab, form feed, carriage return, space, no-break space).
\<close>

definition is_space :: "char \<Rightarrow> bool" where
  "is_space c = (of_char c \<in> {9, 10, 11, 12, 13, 32, 160 :: nat})"

definition js_trim :: "string \<Rightarrow> string" where
  "js_trim s = rev (dropWhile is_space (rev (dropWhile is_space s)))"

section \<open>The environment\<close>

text \<open>
  What the program reads from outside itself, and the built-ins of the JavaScript runtime
  and of its libraries that are not part of the repository, are parameters.
\<close>

datatype file_state = Missing | Unreadable string | Content string

record js_env =
  JSON_parse :: "jsval \<Rightarrow> jsval option"
  coerced_le :: "jsval \<Rightarrow> jsval \<Rightarrow> bool"
  coerced_gt :: "jsval \<Rightarrow> jsval \<Rightarrow> bool"
  exec_lsof :: "jsval \<Rightarrow> string option"
  match_cwd :: "string \<Rightarrow> string option"
  exec_sqlite3 :: "string \<Rightarrow> string \<Rightarrow> string option"
  path_resolve :: "string \<Rightarrow> string"
  fs_file :: "string \<Rightarrow> file_state"
  chalk_gray :: "string \<Rightarrow> string"
  chalk_yellow :: "string \<Rightarrow> string"
  chalk_cyan :: "string \<Rightarrow> string"
  chalk_blue :: "string \<Rightarrow> string"
  chalk_magenta :: "string \<Rightarrow> string"
  chalk_hex_86efac :: "string \<Rightarrow> string"
  child_stderr :: string

text \<open>
  \<^item> \<open>JSON_parse\<close> is \<open>JSON.parse\<close>, which takes any value and reads its string form;
    \<open>None\<close> is the \<open>SyntaxError\<close>.
  \<^item> \<open>coerced_le a b\<close> and \<open>coerced_gt a b\<close> are \<open>a <= b\<close> and \<open>a > b\<close> on operands
    that are not both numbers (JavaScript converts them first).
  \<^item> \<open>exec_lsof pid\<close> is the output of \<open>lsof -p pid | grep cwd\<close>, \<open>None\<close> when the
    command fails or exceeds its one-second limit; \<open>match_cwd\<close> is the first capture
    group of \<open>/cwd\s+DIR\s+[\d,]+\s+\d+\s+\d+\s+(.+)/\<close> on it.
  \<^item> \<open>exec_sqlite3 db query\<close> is the output of the \<open>sqlite3\<close> command line on a state
    database, \<open>None\<close> when it fails.
  \<^item> \<open>path_resolve\<close> is \<open>path.resolve\<close>, \<open>fs_file\<close> the file system at the time of the
    call, and the \<open>chalk_\<close> fields the styling functions of the \<open>chalk\<close> library at its
    current colour level.
  \<^item> \<open>child_stderr\<close> is what the child processes of a run (\<open>osascript\<close>, \<open>sqlite3\<close>,
    \<open>lsof\<close>) write to the standard error they share with the program.
\<close>

text \<open>\<open>a <= b\<close> and \<open>a > b\<close>.\<close>

definition js_le :: "js_env \<Rightarrow> jsval \<Rightarrow> jsval \<Rightarrow> bool" where
  "js_le env a b =
     (case (a, b) of (JNum x, JNum y) \<Rightarrow> x \<le> y | _ \<Rightarrow> coerced_le env a b)"

definition js_gt :: "js_env \<Rightarrow> jsval \<Rightarrow> jsval \<Rightarrow> bool" where
  "js_gt env a b =
     (case (a, b) of (JNum x, JNum y) \<Rightarrow> x > y | _ \<Rightarrow> coerced_gt env a b)"

section \<open>Open tabs: \<open>VSCodeInspector.getOpenFiles\<close>\<close>

datatype file_type = File | Terminal

record terminal_metadata =
  pid :: jsval
  title :: jsval
  cwd :: jsval
  terminal_id :: jsval

record open_file =
  path :: jsval
  type :: file_type
  pinned :: bool
  groupId :: jsval
  index :: nat
  metadata :: "terminal_metadata option"
  selections :: "string list option"

text \<open>
  \<open>queryDatabase\<close>: the trimmed output of the query wrapped as \<open>{ value }\<close>, or \<open>null\<close>
  (\<open>None\<close>) when the output is blank or the command throws.
\<close>

definition queryDatabase :: "js_env \<Rightarrow> string \<Rightarrow> string \<Rightarrow> string option" where
  "queryDatabase env dbPath query =
     (case exec_sqlite3 env dbPath query of
        None \<Rightarrow> None
      | Some result \<Rightarrow> if js_trim result \<noteq> [] then Some (js_trim result) else None)"

text \<open>\<open>sticky !== null && sticky !== undefined && index <= sticky\<close>.\<close>

definition is_pinned :: "js_env \<Rightarrow> jsval \<Rightarrow> nat \<Rightarrow> bool" where
  "is_pinned env sticky i =
     (\<not> strict_eq sticky JNull \<and> \<not> strict_eq sticky JUndefined
      \<and> js_le env (JNum (int i)) sticky)"

text \<open>
  The real-time working directory of a terminal's process: the empty string when the pid is falsy,
  the command fails, or its output does not match.
\<close>

definition realCwd :: "js_env \<Rightarrow> jsval \<Rightarrow> string" where
  "realCwd env p =
     (if truthy p then
        (case exec_lsof env p of
           None \<Rightarrow> []
         | Some lsofOutput \<Rightarrow>
             (case match_cwd env lsofOutput of None \<Rightarrow> [] | Some m \<Rightarrow> js_trim m))
      else [])"

text \<open>
  The body of the inner \<open>try\<close> of the \<open>forEach\<close> callback, for an editor whose \<open>value\<close>
  is truthy: the tabs it pushes, or \<open>None\<close> when it throws (the inner \<open>catch\<close> then skips
  the editor). \<open>gdata\<close> is \<open>group.data\<close>.
\<close>

definition editor_entry ::
  "js_env \<Rightarrow> jsval \<Rightarrow> jsval \<Rightarrow> jsval \<Rightarrow> nat \<Rightarrow> open_file list option" where
  "editor_entry env gdata sticky editor i =
     (if strict_eq (get_field editor ''id'') (JStr ''workbench.editors.files.fileEditorInput'')
      then do {
        editorData \<leftarrow> JSON_parse env (get_field editor ''value'');
        resourceJSON \<leftarrow> get_prop editorData ''resourceJSON'';
        let filePath = opt_prop resourceJSON ''fsPath'';
        Some (if truthy filePath
              then [\<lparr>path = filePath, type = File, pinned = is_pinned env sticky i,
                     groupId = get_field gdata ''id'', index = i,
                     metadata = None, selections = None\<rparr>]
              else [])
      }
      else if strict_eq (get_field editor ''id'') (JStr ''workbench.editors.terminal'')
      then do {
        terminalData \<leftarrow> JSON_parse env (get_field editor ''value'');
        p \<leftarrow> get_prop terminalData ''pid'';
        let rc = realCwd env p;
        let cwdDisplay = (if rc \<noteq> [] then '' @ '' @ rc else []);
        Some [\<lparr>path = JStr (''Terminal: ''
                     @ js_toString (js_or (get_field terminalData ''title'') (JStr ''Unknown''))
                     @ '' (PID: '' @ js_toString (js_or p (JStr ''N/A'')) @ '')''
                     @ cwdDisplay),
                type = Terminal, pinned = is_pinned env sticky i,
                groupId = get_field gdata ''id'', index = i,
                metadata = Some \<lparr>pid = p, title = get_field terminalData ''title'',
                   cwd = (if rc \<noteq> [] then JStr rc
                          else js_or (get_field terminalData ''cwd'') (JStr [])),
                   terminal_id = get_field terminalData ''id''\<rparr>,
                selections = None\<rparr>]
      }
      else Some [])"

text \<open>
  One call of the \<open>forEach\<close> callback. Reading \<open>editor.value\<close> stands outside the inner
  \<open>try\<close>: on a \<open>null\<close> editor it throws past the callback (\<open>None\<close>).
\<close>

definition processEditor ::
  "js_env \<Rightarrow> jsval \<Rightarrow> jsval \<Rightarrow> nat \<times> jsval \<Rightarrow> open_file list option" where
  "processEditor env gdata sticky ie =
     (case ie of (i, editor) \<Rightarrow>
        do {
          v \<leftarrow> get_prop editor ''value'';
          Some (if truthy v
                then (case editor_entry env gdata sticky editor i of
                        None \<Rightarrow> [] | Some fs \<Rightarrow> fs)
                else [])
        })"

text \<open>
  A sequence of steps that each append to \<open>files\<close> or throw: the appended tabs in order,
  or \<open>None\<close> as soon as one step throws.
\<close>

definition collect :: "('a \<Rightarrow> 'b list option) \<Rightarrow> 'a list \<Rightarrow> 'b list option" where
  "collect f xs = map_option concat (those (map f xs))"

text \<open>
  A leaf group: \<open>group.data.editors.forEach(...)\<close>. Only an array has \<open>forEach\<close>; on any
  other truthy value the call throws.
\<close>

definition processLeaf :: "js_env \<Rightarrow> jsval \<Rightarrow> open_file list option" where
  "processLeaf env gdata =
     (case get_field gdata ''editors'' of
        JArr editors \<Rightarrow>
          collect (processEditor env gdata (get_field gdata ''sticky'')) (enumerate 0 editors)
      | _ \<Rightarrow> None)"

lemma collect_cong [fundef_cong]:
  "xs = ys \<Longrightarrow> (\<And>x. x \<in> set ys \<Longrightarrow> f x = g x) \<Longrightarrow> collect f xs = collect g ys"
  unfolding collect_def by (simp cong: map_cong)

lemma iterate_field_size:
  assumes "iterate d = Some gs" and "g \<in> set gs" and "truthy (get_field g k)"
  shows "size (get_field g k) < size d"
proof (cases d)
  case (JArr xs)
  with assms have gin: "g \<in> set xs" by simp
  hence le: "size g < size d" using JArr by (simp add: less_Suc_eq_le size_list_estimation')
  show ?thesis
  proof (cases g)
    case (JObj kvs)
    show ?thesis
    proof (cases "map_of kvs k")
      case None
      with JObj assms(3) show ?thesis by simp
    next
      case (Some v)
      hence "(k, v) \<in> set kvs" by (rule map_of_SomeD)
      hence "size v < size g" using JObj
        by (auto simp: less_Suc_eq_le intro!: size_list_estimation'[where x = "(k, v)"])
      with Some JObj le show ?thesis by simp
    qed
  qed (use assms(3) in simp_all)
next
  case (JStr s)
  with assms show ?thesis by auto
qed (use assms in simp_all)

text \<open>
  \<open>processGridData\<close>: the tabs of every leaf, depth first, in order. A group that is
  \<open>null\<close>, a \<open>data\<close> that is not iterable, or an \<open>editors\<close> that is not an array throws
  (\<open>None\<close>).
\<close>

function processGridData :: "js_env \<Rightarrow> jsval \<Rightarrow> open_file list option" where
  "processGridData env d =
     (case iterate d of
        None \<Rightarrow> None
      | Some groups \<Rightarrow>
          collect (\<lambda>group.
            (case get_prop group ''type'' of
               None \<Rightarrow> None
             | Some t \<Rightarrow>
                 if strict_eq t (JStr ''leaf'')
                    \<and> truthy (opt_prop (get_field group ''data'') ''editors'')
                 then processLeaf env (get_field group ''data'')
                 else if strict_eq t (JStr ''branch'') \<and> truthy (get_field group ''data'')
                 then processGridData env (get_field group ''data'')
                 else Some [])) groups)"
  by pat_completeness auto
termination
  by (relation "measure (\<lambda>(env, d). size d)") (auto simp: iterate_field_size)

declare processGridData.simps [simp del]

text \<open>
  The leaf groups the traversal of a grid reaches: \<open>leaf_in d l\<close> when \<open>l\<close> is the \<open>data\<close>
  of a leaf among the groups of \<open>d\<close>, or of a leaf reached through a branch among them.
\<close>

inductive leaf_in :: "jsval \<Rightarrow> jsval \<Rightarrow> bool" where
  leaf: "iterate d = Some gs \<Longrightarrow> g \<in> set gs
      \<Longrightarrow> strict_eq (get_field g ''type'') (JStr ''leaf'')
      \<Longrightarrow> truthy (opt_prop (get_field g ''data'') ''editors'')
      \<Longrightarrow> leaf_in d (get_field g ''data'')"
| branch: "iterate d = Some gs \<Longrightarrow> g \<in> set gs
      \<Longrightarrow> strict_eq (get_field g ''type'') (JStr ''branch'')
      \<Longrightarrow> truthy (get_field g ''data'') \<Longrightarrow> leaf_in (get_field g ''data'') l
      \<Longrightarrow> leaf_in d l"

record workspace =
  ws_id :: string
  folder :: string
  stateDbPath :: string

definition editor_query :: string where
  "editor_query = ''SELECT value FROM ItemTable WHERE key = '' @ [CHR 0x27]
     @ ''memento/workbench.parts.editor'' @ [CHR 0x27]"

text \<open>
  \<open>editorState['editorpart.state']?.serializedGrid?.root?.data || []\<close>; reading the first
  key throws when the document is \<open>null\<close>.
\<close>

definition gridData_of :: "jsval \<Rightarrow> jsval option" where
  "gridData_of editorState = do {
     part \<leftarrow> get_prop editorState ''editorpart.state'';
     Some (js_or (opt_prop (opt_prop (opt_prop part ''serializedGrid'') ''root'') ''data'')
             (JArr []))
   }"

text \<open>The body of the outer \<open>try\<close> of \<open>getOpenFiles\<close>; \<open>None\<close> when it throws.\<close>

definition getOpenFiles_try :: "js_env \<Rightarrow> workspace \<Rightarrow> open_file list option" where
  "getOpenFiles_try env ws =
     (case queryDatabase env (stateDbPath ws) editor_query of
        None \<Rightarrow> Some []
      | Some v \<Rightarrow> do {
          editorState \<leftarrow> JSON_parse env (JStr v);
          gridData \<leftarrow> gridData_of editorState;
          processGridData env gridData
        })"

text \<open>\<open>getOpenFiles\<close>: the outer \<open>catch\<close> returns \<open>[]\<close>.\<close>

definition getOpenFiles :: "js_env \<Rightarrow> workspace \<Rightarrow> open_file list" where
  "getOpenFiles env ws = (case getOpenFiles_try env ws of None \<Rightarrow> [] | Some files \<Rightarrow> files)"

section \<open>The active file: \<open>VSCodeInspector.getActiveFile\<close>\<close>

text \<open>
  \<open>x[key]\<close> on a value that is neither \<open>undefined\<close> nor \<open>null\<close>. The key is converted to
  a string; an array or string answers to the decimal form of an index and to \<open>length\<close>,
  an object to its own keys. An inherited method (a function) is read as \<open>undefined\<close>:
  the one place that reads a computed key only goes on to compare the \<open>id\<close> of what it
  found with a string, and a function has no \<open>id\<close>.
\<close>

definition js_index :: "jsval \<Rightarrow> jsval \<Rightarrow> jsval" where
  "js_index x key =
     (let k = js_toString key in
      case x of
        JArr xs \<Rightarrow>
          (case find (\<lambda>i. dec i = k) [0..<length xs] of
             Some i \<Rightarrow> xs ! i
           | None \<Rightarrow> if k = ''length'' then JNum (int (length xs)) else JUndefined)
      | JStr s \<Rightarrow>
          (case find (\<lambda>i. dec i = k) [0..<length s] of
             Some i \<Rightarrow> JStr [s ! i]
           | None \<Rightarrow> if k = ''length'' then JNum (int (length s)) else JUndefined)
      | JObj kvs \<Rightarrow> get_field x k
      | _ \<Rightarrow> JUndefined)"

text \<open>\<open>x?.[key]\<close>.\<close>

definition opt_index :: "jsval \<Rightarrow> jsval \<Rightarrow> jsval" where
  "opt_index x key = (if nullish x then JUndefined else js_index x key)"

text \<open>
  What the loop does once it has found the leaf whose id is the active group, up to its
  \<open>break\<close>: the value returned from inside, or \<open>null\<close> (the \<open>return null\<close> after the loop).
\<close>

definition activeOfGroup :: "js_env \<Rightarrow> jsval \<Rightarrow> jsval option" where
  "activeOfGroup env gdata = do {
     m \<leftarrow> get_prop gdata ''mru'';
     let mru = js_or m (JArr []);
     let activeIndex = js_index mru (JNum 0);
     if \<not> strict_eq activeIndex JUndefined
        \<and> truthy (opt_index (get_field gdata ''editors'') activeIndex)
     then
       (let editor = js_index (get_field gdata ''editors'') activeIndex in
        if strict_eq (get_field editor ''id'') (JStr ''workbench.editors.files.fileEditorInput'')
           \<and> truthy (get_field editor ''value'')
        then do {
          editorData \<leftarrow> JSON_parse env (get_field editor ''value'');
          resourceJSON \<leftarrow> get_prop editorData ''resourceJSON'';
          Some (js_or (opt_prop resourceJSON ''fsPath'') JNull)
        }
        else Some JNull)
     else Some JNull
   }"

text \<open>
  The loop \<open>for (const group of gridData)\<close> of \<open>getActiveFile\<close>, over the elements of
  \<open>gridData\<close> only: it does not descend into a branch.
\<close>

fun findActiveGroup :: "js_env \<Rightarrow> jsval \<Rightarrow> jsval list \<Rightarrow> jsval option" where
  "findActiveGroup env activeGroup [] = Some JNull"
| "findActiveGroup env activeGroup (grp # rest) = do {
     t \<leftarrow> get_prop grp ''type'';
     if strict_eq t (JStr ''leaf'')
        \<and> strict_eq (opt_prop (get_field grp ''data'') ''id'') activeGroup
     then activeOfGroup env (get_field grp ''data'')
     else findActiveGroup env activeGroup rest
   }"

definition getActiveFile_try :: "js_env \<Rightarrow> workspace \<Rightarrow> jsval option" where
  "getActiveFile_try env ws =
     (case queryDatabase env (stateDbPath ws) editor_query of
        None \<Rightarrow> Some JNull
      | Some v \<Rightarrow> do {
          editorState \<leftarrow> JSON_parse env (JStr v);
          part \<leftarrow> get_prop editorState ''editorpart.state'';
          let activeGroup = opt_prop part ''activeGroup'';
          gridData \<leftarrow> gridData_of editorState;
          groups \<leftarrow> iterate gridData;
          findActiveGroup env activeGroup groups
        })"

text \<open>\<open>getActiveFile\<close>: a file path, or \<open>null\<close>; the \<open>catch\<close> returns \<open>null\<close>.\<close>

definition getActiveFile :: "js_env \<Rightarrow> workspace \<Rightarrow> jsval" where
  "getActiveFile env ws = (case getActiveFile_try env ws of None \<Rightarrow> JNull | Some r \<Rightarrow> r)"

section \<open>Selections: \<open>VSCodeInspector.getSelections\<close>\<close>

text \<open>An entry of \<open>content\<close>: \<open>{ range, content, lineCount }\<close>.\<close>

record content_item =
  item_range :: string
  item_content :: string
  lineCount :: nat

text \<open>A selection: \<open>{ file, ranges }\<close>, to which \<open>getRawContext\<close> may add \<open>content\<close>.\<close>

record selection =
  sel_file :: string
  ranges :: "string list"
  content :: "content_item list option"

definition selection_query :: string where
  "selection_query = ''SELECT value FROM ItemTable WHERE key = '' @ [CHR 0x27]
     @ ''memento/workbench.editors.files.textFileEditor'' @ [CHR 0x27]"

text \<open>\<open>s.replace(pat, rep)\<close> with a string pattern: the first occurrence only.\<close>

fun replace_first :: "string \<Rightarrow> string \<Rightarrow> string \<Rightarrow> string" where
  "replace_first pat rep [] = (if pat = [] then rep else [])"
| "replace_first pat rep (c # cs) =
     (if prefix pat (c # cs) then rep @ drop (length pat) (c # cs)
      else c # replace_first pat rep cs)"

text \<open>
  \<open>const [a, b] = entry\<close>: the first two items of an iterable (\<open>undefined\<close> where it has
  fewer); \<open>None\<close> when the entry is not iterable.
\<close>

definition destructure2 :: "jsval \<Rightarrow> (jsval \<times> jsval) option" where
  "destructure2 entry =
     (case iterate entry of
        None \<Rightarrow> None
      | Some xs \<Rightarrow> Some (if 0 < length xs then xs ! 0 else JUndefined,
                        if 1 < length xs then xs ! 1 else JUndefined))"

text \<open>
  The values of \<open>Object.entries(x)\<close>, in order; \<open>None\<close> for the \<open>TypeError\<close> on \<open>undefined\<close>
  and \<open>null\<close>.
\<close>

fun entries_values :: "jsval \<Rightarrow> jsval list option" where
  "entries_values JUndefined = None"
| "entries_values JNull = None"
| "entries_values (JObj kvs) = Some (map snd kvs)"
| "entries_values (JArr xs) = Some xs"
| "entries_values (JStr s) = Some (map (\<lambda>c. JStr [c]) s)"
| "entries_values _ = Some []"

text \<open>
  \<open>isBackward\<close>: the anchor \<open>selStart\<close> lies after the cursor \<open>pos\<close> in (line, column)
  order.
\<close>

definition isBackward :: "js_env \<Rightarrow> jsval \<Rightarrow> jsval \<Rightarrow> bool" where
  "isBackward env selStart pos =
     (js_gt env (get_field selStart ''lineNumber'') (get_field pos ''lineNumber'')
      \<or> (strict_eq (get_field selStart ''lineNumber'') (get_field pos ''lineNumber'')
          \<and> js_gt env (get_field selStart ''column'') (get_field pos ''column'')))"

text \<open>\<open>(actualStart, actualEnd)\<close>.\<close>

definition normalize :: "js_env \<Rightarrow> jsval \<Rightarrow> jsval \<Rightarrow> jsval \<times> jsval" where
  "normalize env selStart pos =
     (if isBackward env selStart pos then (pos, selStart) else (selStart, pos))"

text \<open>The range string pushed for \<open>actualStart\<close> and \<open>actualEnd\<close>.\<close>

definition format_range :: "jsval \<times> jsval \<Rightarrow> string" where
  "format_range se =
     (case se of (actualStart, actualEnd) \<Rightarrow>
        if strict_eq (get_field actualStart ''lineNumber'') (get_field actualEnd ''lineNumber'')
        then ''L'' @ js_toString (get_field actualStart ''lineNumber'')
             @ '':C'' @ js_toString (get_field actualStart ''column'')
             @ ''-'' @ js_toString (get_field actualEnd ''column'')
        else ''L'' @ js_toString (get_field actualStart ''lineNumber'')
             @ '':C'' @ js_toString (get_field actualStart ''column'')
             @ ''-L'' @ js_toString (get_field actualEnd ''lineNumber'')
             @ '':C'' @ js_toString (get_field actualEnd ''column''))"

text \<open>
  The ranges pushed for a cursor state \<open>state.cursorState?.[0]\<close>: none or one.
\<close>

definition cursor_ranges :: "js_env \<Rightarrow> jsval \<Rightarrow> string list" where
  "cursor_ranges env cursorState =
     (if strict_eq (opt_prop cursorState ''inSelectionMode'') (JBool True)
      then (let selStart = get_field cursorState ''selectionStart'';
                pos = get_field cursorState ''position''
            in if truthy selStart \<and> truthy pos
                  \<and> (\<not> strict_eq (get_field selStart ''lineNumber'') (get_field pos ''lineNumber'')
                     \<or> \<not> strict_eq (get_field selStart ''column'') (get_field pos ''column''))
               then [format_range (normalize env selStart pos)]
               else [])
      else [])"

text \<open>
  One pass of the loop over the view states of a file: the ranges it pushes, \<open>None\<close> when
  it throws (a \<open>null\<close> state).
\<close>

definition state_ranges :: "js_env \<Rightarrow> jsval \<Rightarrow> string list option" where
  "state_ranges env state = do {
     cs \<leftarrow> get_prop state ''cursorState'';
     Some (cursor_ranges env (opt_index cs (JNum 0)))
   }"

text \<open>
  One pass of the loop over \<open>textEditorViewState\<close>: the selection it pushes, if any.
  \<open>replace\<close> is a method of strings only.
\<close>

definition file_selections :: "js_env \<Rightarrow> jsval \<Rightarrow> selection list option" where
  "file_selections env entry = do {
     (filePath, states) \<leftarrow> destructure2 entry;
     cleanPath \<leftarrow> (case filePath of JStr p \<Rightarrow> Some (replace_first ''file://'' [] p)
                    | _ \<Rightarrow> None);
     sts \<leftarrow> entries_values states;
     rs \<leftarrow> collect (state_ranges env) sts;
     Some (if length rs > 0 then [\<lparr>sel_file = cleanPath, ranges = rs, content = None\<rparr>] else [])
   }"

definition getSelections_try :: "js_env \<Rightarrow> workspace \<Rightarrow> selection list option" where
  "getSelections_try env ws =
     (case queryDatabase env (stateDbPath ws) selection_query of
        None \<Rightarrow> Some []
      | Some v \<Rightarrow> do {
          viewState \<leftarrow> JSON_parse env (JStr v);
          t \<leftarrow> get_prop viewState ''textEditorViewState'';
          entries \<leftarrow> iterate (js_or t (JArr []));
          collect (file_selections env) entries
        })"

definition getSelections :: "js_env \<Rightarrow> workspace \<Rightarrow> selection list" where
  "getSelections env ws = (case getSelections_try env ws of None \<Rightarrow> [] | Some sels \<Rightarrow> sels)"

section \<open>Selected text: \<open>VSCodeInspector.extractSelectedContent\<close>\<close>

definition is_digit :: "char \<Rightarrow> bool" where
  "is_digit c = (48 \<le> (of_char c :: nat) \<and> (of_char c :: nat) \<le> 57)"

definition digit_val :: "char \<Rightarrow> nat" where
  "digit_val c = of_char c - 48"

text \<open>
  \<open>parseInt\<close> on a string of decimal digits, as an exact number (line and column
  numbers stay far below the range in which JavaScript numbers round).
\<close>

definition parseInt :: "string \<Rightarrow> nat" where
  "parseInt ds = foldl (\<lambda>a c. 10 * a + digit_val c) 0 ds"

definition strip_prefix :: "string \<Rightarrow> string \<Rightarrow> string option" where
  "strip_prefix p s = (if prefix p s then Some (drop (length p) s) else None)"

text \<open>\<open>(\d+)\<close>: the longest run of digits, at least one, and what follows it.\<close>

definition digits1 :: "string \<Rightarrow> (string \<times> string) option" where
  "digits1 s =
     (if takeWhile is_digit s = [] then None
      else Some (takeWhile is_digit s, dropWhile is_digit s))"

text \<open>
  The regular expression \<open>/L(\d+):C(\d+)-(?:L(\d+):C)?(\d+)/\<close> at the start of a string:
  its four groups, the third absent when the optional part does not take part. Each digit
  run is followed by a character that is no digit, so giving back digits never helps a
  match; the optional part is tried first, and the expression without it after that.
\<close>

definition match_group :: "string \<Rightarrow> (string \<times> string) option" where
  "match_group s = do {
     r1 \<leftarrow> strip_prefix ''L'' s;
     (d3, r2) \<leftarrow> digits1 r1;
     r3 \<leftarrow> strip_prefix '':C'' r2;
     (d4, r4) \<leftarrow> digits1 r3;
     Some (d3, d4)
   }"

definition match_here :: "string \<Rightarrow> (string \<times> string \<times> string option \<times> string) option" where
  "match_here s = do {
     r1 \<leftarrow> strip_prefix ''L'' s;
     (d1, r2) \<leftarrow> digits1 r1;
     r3 \<leftarrow> strip_prefix '':C'' r2;
     (d2, r4) \<leftarrow> digits1 r3;
     r5 \<leftarrow> strip_prefix ''-'' r4;
     (case match_group r5 of
        Some (d3, d4) \<Rightarrow> Some (d1, d2, Some d3, d4)
      | None \<Rightarrow> do { (d4, r6) \<leftarrow> digits1 r5; Some (d1, d2, None, d4) })
   }"

text \<open>\<open>range.match(...)\<close>: the leftmost position at which the expression matches.\<close>

fun match_range :: "string \<Rightarrow> (string \<times> string \<times> string option \<times> string) option" where
  "match_range [] = match_here []"
| "match_range (c # cs) =
     (case match_here (c # cs) of Some m \<Rightarrow> Some m | None \<Rightarrow> match_range cs)"

text \<open>\<open>content.split('\n')\<close>.\<close>

fun split_on :: "char \<Rightarrow> string \<Rightarrow> string list" where
  "split_on c [] = [[]]"
| "split_on c (x # xs) =
     (if x = c then [] # split_on c xs
      else (case split_on c xs of l # ls \<Rightarrow> (x # l) # ls | [] \<Rightarrow> [[x]]))"

text \<open>\<open>lines[i]\<close>: \<open>None\<close> for \<open>undefined\<close>.\<close>

definition line_at :: "string list \<Rightarrow> int \<Rightarrow> string option" where
  "line_at lines i = (if 0 \<le> i \<and> i < int (length lines) then Some (lines ! nat i) else None)"

text \<open>
  \<open>s.substring(a, b)\<close>: both arguments are clamped to the string, and swapped when the
  first is the larger. \<open>s.substring(a)\<close> runs to the end.
\<close>

definition js_substring :: "string \<Rightarrow> int \<Rightarrow> int \<Rightarrow> string" where
  "js_substring s a b =
     (let n = int (length s);
          a' = max 0 (min a n);
          b' = max 0 (min b n)
      in take (nat (max a' b' - min a' b')) (drop (nat (min a' b')) s))"

definition js_substring_from :: "string \<Rightarrow> int \<Rightarrow> string" where
  "js_substring_from s a = js_substring s a (int (length s))"

text \<open>
  What one pass of the multi-line loop appends for line \<open>i\<close>. A line that is \<open>undefined\<close>
  or empty is falsy and skipped by \<open>if (!lines[i]) continue\<close>.
\<close>

definition line_piece :: "string list \<Rightarrow> int \<Rightarrow> int \<Rightarrow> int \<Rightarrow> int \<Rightarrow> int \<Rightarrow> string" where
  "line_piece lines startLine startCol endLine endCol i =
     (case line_at lines i of
        None \<Rightarrow> []
      | Some l \<Rightarrow>
          if l = [] then []
          else if i = startLine then js_substring_from l startCol @ [CHR 0x0A]
          else if i = endLine then js_substring l 0 (endCol + 1)
          else l @ [CHR 0x0A])"

text \<open>\<open>selectedText\<close> for 0-based lines and columns.\<close>

definition selectedText :: "string list \<Rightarrow> int \<Rightarrow> int \<Rightarrow> int \<Rightarrow> int \<Rightarrow> string" where
  "selectedText lines startLine startCol endLine endCol =
     (if startLine = endLine then
        (case line_at lines startLine of
           None \<Rightarrow> []
         | Some l \<Rightarrow> if l = [] then [] else js_substring l startCol (endCol + 1))
      else concat (map (line_piece lines startLine startCol endLine endCol)
                     [min startLine endLine .. max startLine endLine]))"

text \<open>One pass of the loop over \<open>ranges\<close>: the item it pushes, if any.\<close>

definition extract_range :: "string list \<Rightarrow> string \<Rightarrow> content_item list" where
  "extract_range lines r =
     (case match_range r of
        None \<Rightarrow> []
      | Some (m1, m2, m3, m4) \<Rightarrow>
          (let startLine = int (parseInt m1) - 1;
               startCol = int (parseInt m2) - 1;
               endLine = (case m3 of Some d \<Rightarrow> int (parseInt d) - 1 | None \<Rightarrow> startLine);
               endCol = int (parseInt m4) - 1;
               txt = selectedText lines startLine startCol endLine endCol
           in if js_trim txt \<noteq> []
              then [\<lparr>item_range = r, item_content = txt,
                     lineCount = nat (\<bar>endLine - startLine\<bar> + 1)\<rparr>]
              else []))"

text \<open>
  \<open>extractSelectedContent\<close>: \<open>null\<close> (\<open>None\<close>) when the file does not exist or reading it
  throws.
\<close>

definition extractSelectedContent :: "js_env \<Rightarrow> string \<Rightarrow> string list \<Rightarrow> content_item list option" where
  "extractSelectedContent env filePath rs =
     (case fs_file env filePath of
        Content c \<Rightarrow> Some (concat (map (extract_range (split_on (CHR 0x0A) c)) rs))
      | _ \<Rightarrow> None)"

section \<open>Finding the workspace and building the context: \<open>getRawContext\<close>\<close>

text \<open>
  \<open>findWorkspaceByFile\<close>: \<open>this.workspaces.find(ws => normalizedPath.startsWith(ws.folder))\<close>.
\<close>

definition findWorkspaceByFile :: "js_env \<Rightarrow> workspace list \<Rightarrow> string \<Rightarrow> workspace option" where
  "findWorkspaceByFile env workspaces filePath =
     find (\<lambda>ws. prefix (folder ws) (path_resolve env filePath)) workspaces"

record workspace_info =
  info_id :: string
  info_folder :: string

text \<open>The value \<open>getRawContext\<close> returns.\<close>

record raw_context =
  ctx_workspace :: workspace_info
  openFiles :: "open_file list"
  pinnedFiles :: "open_file list"
  ctx_selections :: "selection list"
  activeFile :: jsval

record context_options =
  forceRefresh :: "bool option"
  opt_includeContent :: bool
  allSelections :: bool

datatype error = Error string

text \<open>
  \<open>file.selections = fileSelections?.ranges || []\<close>, for file tabs only: the ranges of the
  first selection whose file is the tab's path.
\<close>

definition add_selections :: "selection list \<Rightarrow> open_file \<Rightarrow> open_file" where
  "add_selections sels f =
     (if type f = File then
        f\<lparr>selections :=
            Some (case find (\<lambda>s. strict_eq (JStr (sel_file s)) (path f)) sels of
                    None \<Rightarrow> []
                  | Some s \<Rightarrow> ranges s)\<rparr>
      else f)"

text \<open>\<open>selection.content = content\<close> when \<open>extractSelectedContent\<close> returns a list.\<close>

definition add_content :: "js_env \<Rightarrow> selection \<Rightarrow> selection" where
  "add_content env s =
     (case extractSelectedContent env (sel_file s) (ranges s) of
        None \<Rightarrow> s
      | Some c \<Rightarrow> s\<lparr>content := Some c\<rparr>)"

text \<open>
  \<open>getRawContext\<close>. The three reads see the environment as it is after the optional
  \<open>forceStateRefresh\<close>, which changes nothing in the program itself. \<open>Inl\<close> is the
  \<open>Error\<close> thrown when no workspace is found.
\<close>

definition getRawContext ::
  "js_env \<Rightarrow> workspace list \<Rightarrow> string \<Rightarrow> context_options \<Rightarrow> error + raw_context" where
  "getRawContext env workspaces filePath options =
     (case findWorkspaceByFile env workspaces filePath of
        None \<Rightarrow> Inl (Error (''No workspace found for file: '' @ filePath))
      | Some ws \<Rightarrow>
          (let sels0 = getSelections env ws;
               active = getActiveFile env ws;
               files = map (add_selections sels0) (getOpenFiles env ws);
               sels = (if opt_includeContent options then map (add_content env) sels0
                       else sels0);
               filteredSelections =
                 (if allSelections options
                  then filter (\<lambda>s. list_ex (\<lambda>f. strict_eq (JStr (sel_file s)) (path f)) files) sels
                  else if truthy active
                  then filter (\<lambda>s. strict_eq (JStr (sel_file s)) active) sels
                  else [])
           in Inr \<lparr>ctx_workspace = \<lparr>info_id = ws_id ws, info_folder = folder ws\<rparr>,
                   openFiles = files,
                   pinnedFiles = filter pinned files,
                   ctx_selections = filteredSelections,
                   activeFile = active\<rparr>))"

section \<open>Text output: \<open>LLMFormatter\<close>\<close>

record format_options =
  includeTerminals :: bool
  includeContent :: bool
  includePinnedContent :: bool
  legacyFormat :: bool
  smartMode :: "bool option"

text \<open>\<open>LLMFormatter.workspace\<close>.\<close>

definition fmt_workspace :: "js_env \<Rightarrow> workspace_info \<Rightarrow> string" where
  "fmt_workspace env w =
     chalk_gray env ''WORKSPACE:'' @ '' '' @ info_folder w @ [CHR 0x0A]
     @ chalk_gray env ''WORKSPACE_ID:'' @ '' '' @ info_id w @ [CHR 0x0A]"

text \<open>\<open>toLowerCase\<close> on the Latin-1 range.\<close>

definition lower_char :: "char \<Rightarrow> char" where
  "lower_char c =
     (let n = (of_char c :: nat) in
      if (65 \<le> n \<and> n \<le> 90) \<or> (192 \<le> n \<and> n \<le> 222 \<and> n \<noteq> 215)
      then char_of (n + 32) else c)"

definition langMap :: "(string \<times> string) list" where
  "langMap =
     [(''js'', ''javascript''), (''jsx'', ''javascript''), (''ts'', ''typescript''),
      (''tsx'', ''typescript''), (''py'', ''python''), (''rb'', ''ruby''), (''go'', ''go''),
      (''rs'', ''rust''), (''java'', ''java''), (''cpp'', ''cpp''), (''c'', ''c''),
      (''cs'', ''csharp''), (''php'', ''php''), (''sh'', ''bash''), (''yml'', ''yaml''),
      (''yaml'', ''yaml''), (''json'', ''json''), (''xml'', ''xml''), (''html'', ''html''),
      (''css'', ''css''), (''scss'', ''scss''), (''md'', ''markdown'')]"

text \<open>
  \<open>getFileLanguage\<close>, as the template literals print its result. \<open>langMap\<close> is an object
  literal, so the two lower-case names it inherits also answer: \<open>constructor\<close> (the
  function \<open>Object\<close>) and \<open>__proto__\<close> (an object).
\<close>

definition getFileLanguage :: "string \<Rightarrow> string" where
  "getFileLanguage filePath =
     (let ext = map lower_char (last (split_on (CHR ''.'') filePath)) in
      case map_of langMap ext of
        Some lang \<Rightarrow> lang
      | None \<Rightarrow>
          if ext = ''constructor'' then ''function Object() { [native code] }''
          else if ext = ''__proto__'' then ''[object Object]''
          else ''text'')"

text \<open>
  A fenced block: three backquotes and the language, each line of \<open>c\<close>, three
  backquotes, all behind the indentation \<open>ind\<close>.
\<close>

definition fenced :: "string \<Rightarrow> string \<Rightarrow> string \<Rightarrow> string" where
  "fenced ind lang c =
     ind @ replicate 3 (CHR 0x60) @ lang @ [CHR 0x0A]
     @ concat (map (\<lambda>line. ind @ line @ [CHR 0x0A]) (split_on (CHR 0x0A) c))
     @ ind @ replicate 3 (CHR 0x60) @ [CHR 0x0A]"

text \<open>The \<open>status\<close> array of a file, and \<open>statusStr\<close>.\<close>

definition file_status :: "js_env \<Rightarrow> open_file \<Rightarrow> string list" where
  "file_status env f =
     (if pinned f then [chalk_yellow env ''[PINNED]''] else [])
     @ (if type f = Terminal then [''[TERMINAL]''] else [])
     @ (case selections f of
          None \<Rightarrow> []
        | Some rs \<Rightarrow> if length rs \<noteq> 0
                     then [chalk_cyan env (''[SELECTED:'' @ join '','' rs @ '']'')] else [])"

definition statusStr :: "js_env \<Rightarrow> open_file \<Rightarrow> string" where
  "statusStr env f =
     (if length (file_status env f) \<noteq> 0 then '' '' @ join '' '' (file_status env f) else [])"

text \<open>
  The file content a list entry shows: what the \<open>try\<close> block appends when the file
  exists, the message of its \<open>catch\<close> when reading throws. \<open>existsSync\<close> is false for a
  path that is no string.
\<close>

definition file_content_block :: "js_env \<Rightarrow> open_file \<Rightarrow> string" where
  "file_content_block env f =
     (case path f of
        JStr p \<Rightarrow>
          (case fs_file env p of
             Missing \<Rightarrow> []
           | Unreadable msg \<Rightarrow> ''     [Error reading file: '' @ msg @ '']'' @ [CHR 0x0A]
           | Content c \<Rightarrow> fenced ''     '' (getFileLanguage p) c)
      | _ \<Rightarrow> [])"

text \<open>What the \<open>forEach\<close> callback of \<open>fileList\<close> appends for the file at \<open>i\<close>.\<close>

definition file_entry :: "js_env \<Rightarrow> format_options \<Rightarrow> nat \<times> open_file \<Rightarrow> string" where
  "file_entry env options ixf =
     (case ixf of (i, f) \<Rightarrow>
        ''  '' @ dec (i + 1) @ ''. '' @ js_toString (path f) @ statusStr env f @ [CHR 0x0A]
        @ (if (includeContent options \<or> (includePinnedContent options \<and> pinned f))
              \<and> type f = File
           then file_content_block env f else []))"

text \<open>\<open>LLMFormatter.fileList\<close>.\<close>

definition fileList :: "js_env \<Rightarrow> open_file list \<Rightarrow> string \<Rightarrow> format_options \<Rightarrow> string" where
  "fileList env files ttl options =
     (if length files = 0 then ttl @ '': none'' @ [CHR 0x0A]
      else chalk_gray env (ttl @ '':'') @ [CHR 0x0A]
           @ concat (map (file_entry env options) (enumerate 0 files)))"

text \<open>The legacy format of one range of a selection.\<close>

definition legacy_range :: "selection \<Rightarrow> nat \<times> string \<Rightarrow> string" where
  "legacy_range sel ir =
     (case ir of (i, r) \<Rightarrow>
        ''     '' @ dec (i + 1) @ ''. '' @ r @ [CHR 0x0A]
        @ (case content sel of
             None \<Rightarrow> []
           | Some items \<Rightarrow>
               (case find (\<lambda>c. item_range c = r) items of
                  None \<Rightarrow> []
                | Some contentItem \<Rightarrow>
                    fenced ''        '' (getFileLanguage (sel_file sel))
                      (item_content contentItem))))"

text \<open>
  What the \<open>forEach\<close> callback of \<open>selections\<close> appends for the selection at \<open>i\<close> of \<open>n\<close>.
\<close>

definition selection_entry ::
  "js_env \<Rightarrow> format_options \<Rightarrow> nat \<Rightarrow> nat \<times> selection \<Rightarrow> string" where
  "selection_entry env options n isel =
     (case isel of (i, sel) \<Rightarrow>
        if legacyFormat options then
          ''  '' @ dec (i + 1) @ ''. '' @ sel_file sel @ [CHR 0x0A]
          @ concat (map (legacy_range sel) (enumerate 0 (ranges sel)))
        else
          chalk_magenta env (''The user selected the following lines from '' @ sel_file sel @ '':'')
          @ [CHR 0x0A]
          @ (case content sel of
               Some items \<Rightarrow>
                 concat (map (\<lambda>contentItem.
                   concat (map (\<lambda>line. chalk_hex_86efac env (line @ [CHR 0x0A]))
                             (split_on (CHR 0x0A) (item_content contentItem)))) items)
             | None \<Rightarrow>
                 concat (map (\<lambda>r. chalk_hex_86efac env (r @ [CHR 0x0A])) (ranges sel)))
          @ (if int i < int n - 1 then [CHR 0x0A] else []))"

text \<open>\<open>LLMFormatter.selections\<close>.\<close>

definition fmt_selections :: "js_env \<Rightarrow> selection list \<Rightarrow> format_options \<Rightarrow> string" where
  "fmt_selections env sels options =
     (if length sels = 0 then ''SELECTIONS: none'' @ [CHR 0x0A]
      else (if legacyFormat options then ''SELECTIONS:'' @ [CHR 0x0A] else [])
           @ concat (map (selection_entry env options (length sels)) (enumerate 0 sels)))"

text \<open>The three parts of \<open>LLMFormatter.raw\<close> that depend on its branches.\<close>

definition shown :: "format_options \<Rightarrow> open_file list \<Rightarrow> open_file list" where
  "shown options files =
     (if includeTerminals options then files else filter (\<lambda>f. type f \<noteq> Terminal) files)"

definition pinned_section :: "js_env \<Rightarrow> raw_context \<Rightarrow> format_options \<Rightarrow> string" where
  "pinned_section env data options =
     (if \<not> (smartMode options \<noteq> Some False) \<and> length (shown options (pinnedFiles data)) > 0
      then fileList env (shown options (pinnedFiles data)) ''PINNED_EDITORS'' options
           @ [CHR 0x0A]
      else [])"

definition selections_section :: "js_env \<Rightarrow> raw_context \<Rightarrow> format_options \<Rightarrow> string" where
  "selections_section env data options =
     (let selectionsOutput = fmt_selections env (ctx_selections data) options in
      if selectionsOutput \<noteq> [] \<and> selectionsOutput \<noteq> ''SELECTIONS: none'' @ [CHR 0x0A]
      then selectionsOutput @ [CHR 0x0A] else [])"

definition summary_counts :: "js_env \<Rightarrow> raw_context \<Rightarrow> format_options \<Rightarrow> string" where
  "summary_counts env data options =
     chalk_gray env ''TOTAL_OPEN:'' @ '' '' @ dec (length (shown options (openFiles data)))
     @ [CHR 0x0A]
     @ (if length (shown options (pinnedFiles data)) > 0
        then chalk_gray env ''TOTAL_PINNED:'' @ '' ''
             @ dec (length (shown options (pinnedFiles data))) @ [CHR 0x0A]
        else [])
     @ (if length (ctx_selections data) > 0
        then chalk_gray env ''TOTAL_SELECTED:'' @ '' ''
             @ dec (length (ctx_selections data)) @ [CHR 0x0A]
        else [])"

text \<open>\<open>LLMFormatter.raw\<close>.\<close>

definition raw :: "js_env \<Rightarrow> raw_context \<Rightarrow> format_options \<Rightarrow> string" where
  "raw env data options =
     chalk_blue env ''=== VS CODE RAW CONTEXT ==='' @ [CHR 0x0A]
     @ fmt_workspace env (ctx_workspace data)
     @ [CHR 0x0A]
     @ fileList env (shown options (openFiles data)) ''OPEN_EDITORS''
         (options\<lparr>includePinnedContent := True\<rparr>)
     @ [CHR 0x0A]
     @ pinned_section env data options
     @ selections_section env data options
     @ summary_counts env data options
     @ chalk_blue env ''=== END RAW CONTEXT ==='' @ [CHR 0x0A]"

section \<open>The commands\<close>

text \<open>
  The global options as \<open>commander\<close> hands them over (\<open>None\<close>: \<open>undefined\<close>), and what a
  run of the program leaves behind: standard output, standard error and the exit code.
\<close>

record global_options =
  json :: bool
  opt_content :: "bool option"
  terminals :: bool
  opt_legacyFormat :: bool
  opt_allSelections :: bool
  smart :: "bool option"
  refresh :: "bool option"

record process_result =
  stdout :: string
  stderr :: string
  exit_code :: nat

text \<open>
  The \<open>catch\<close> of every command: \<open>console.error('Error:', err.message); process.exit(1)\<close>.
\<close>

definition exit_with_error :: "error \<Rightarrow> process_result" where
  "exit_with_error e =
     (case e of Error msg \<Rightarrow>
        \<lparr>stdout = [], stderr = ''Error: '' @ msg @ [CHR 0x0A], exit_code = 1\<rparr>)"

text \<open>
  The shape all five commands share: after \<open>init\<close>, whose outcome is \<open>loaded\<close> (the
  workspaces found, or the error thrown), build the context and print \<open>render\<close> of it.
  No child process runs before \<open>init\<close> or \<open>findWorkspaceByFile\<close> throws, so on those
  paths standard error holds the message alone; on success it holds what the child
  processes wrote.
\<close>

definition run_action ::
  "js_env \<Rightarrow> error + workspace list \<Rightarrow> string \<Rightarrow> context_options
     \<Rightarrow> (raw_context \<Rightarrow> string) \<Rightarrow> process_result" where
  "run_action env loaded filePath options render =
     (case loaded of
        Inl e \<Rightarrow> exit_with_error e
      | Inr workspaces \<Rightarrow>
          (case getRawContext env workspaces filePath options of
             Inl e \<Rightarrow> exit_with_error e
           | Inr ctx \<Rightarrow>
               \<lparr>stdout = render ctx @ [CHR 0x0A], stderr = child_stderr env,
                exit_code = 0\<rparr>))"

definition command_options :: "global_options \<Rightarrow> context_options" where
  "command_options g =
     \<lparr>forceRefresh = refresh g, opt_includeContent = (opt_content g \<noteq> Some False),
      allSelections = opt_allSelections g\<rparr>"

text \<open>
  The commands \<open>raw\<close>, \<open>open\<close>, \<open>pinned\<close>, \<open>selections\<close> and \<open>workspace\<close>.
  \<open>stringify\<close> is \<open>JSON.stringify(context, null, 2)\<close>.
\<close>

definition raw_command ::
  "js_env \<Rightarrow> (raw_context \<Rightarrow> string) \<Rightarrow> error + workspace list \<Rightarrow> string
     \<Rightarrow> global_options \<Rightarrow> process_result" where
  "raw_command env stringify loaded filePath g =
     run_action env loaded filePath (command_options g)
       (\<lambda>ctx. if json g then stringify ctx
              else raw env ctx
                     \<lparr>includeTerminals = terminals g, includeContent = (opt_content g = Some True),
                      includePinnedContent = False, legacyFormat = opt_legacyFormat g,
                      smartMode = smart g\<rparr>)"

definition open_command ::
  "js_env \<Rightarrow> error + workspace list \<Rightarrow> string \<Rightarrow> global_options \<Rightarrow> process_result" where
  "open_command env loaded filePath g =
     run_action env loaded filePath (command_options g)
       (\<lambda>ctx. fileList env
                (if terminals g then openFiles ctx
                 else filter (\<lambda>f. type f \<noteq> Terminal) (openFiles ctx))
                ''OPEN_EDITORS''
                \<lparr>includeTerminals = False, includeContent = (opt_content g = Some True),
                 includePinnedContent = False, legacyFormat = False, smartMode = None\<rparr>)"

definition pinned_command ::
  "js_env \<Rightarrow> error + workspace list \<Rightarrow> string \<Rightarrow> global_options \<Rightarrow> process_result" where
  "pinned_command env loaded filePath g =
     run_action env loaded filePath (command_options g)
       (\<lambda>ctx. fileList env
                (if terminals g then pinnedFiles ctx
                 else filter (\<lambda>f. type f \<noteq> Terminal) (pinnedFiles ctx))
                ''PINNED_EDITORS''
                \<lparr>includeTerminals = False, includeContent = (opt_content g = Some True),
                 includePinnedContent = False, legacyFormat = False, smartMode = None\<rparr>)"

definition selections_command ::
  "js_env \<Rightarrow> error + workspace list \<Rightarrow> string \<Rightarrow> global_options \<Rightarrow> process_result" where
  "selections_command env loaded filePath g =
     run_action env loaded filePath (command_options g)
       (\<lambda>ctx. fmt_selections env (ctx_selections ctx)
                \<lparr>includeTerminals = False, includeContent = False,
                 includePinnedContent = False, legacyFormat = opt_legacyFormat g,
                 smartMode = None\<rparr>)"

definition workspace_command ::
  "js_env \<Rightarrow> error + workspace list \<Rightarrow> string \<Rightarrow> process_result" where
  "workspace_command env loaded filePath =
     run_action env loaded filePath
       \<lparr>forceRefresh = None, opt_includeContent = False, allSelections = False\<rparr>
       (\<lambda>ctx. fmt_workspace env (ctx_workspace ctx))"

section \<open>Example documents\<close>

text \<open>
  The JSON text of a value without control characters, as \<open>JSON.stringify\<close> writes it.
\<close>

fun escape :: "string \<Rightarrow> string" where
  "escape [] = []"
| "escape (c # cs) =
     (if c = CHR 0x22 \<or> c = CHR 0x5C then CHR 0x5C # c # escape cs else c # escape cs)"

definition quote :: "string \<Rightarrow> string" where
  "quote s = CHR 0x22 # escape s @ [CHR 0x22]"

fun json_text :: "jsval \<Rightarrow> string" where
  "json_text JUndefined = ''null''"
| "json_text JNull = ''null''"
| "json_text (JBool b) = (if b then ''true'' else ''false'')"
| "json_text (JNum n) = dec_int n"
| "json_text (JStr s) = quote s"
| "json_text (JArr xs) = ''['' @ join '','' (map json_text xs) @ '']''"
| "json_text (JObj kvs) =
     ''{'' @ join '','' (map (\<lambda>(k, v). quote k @ '':'' @ json_text v) kvs) @ ''}''"

text \<open>A \<open>JSON.parse\<close> that knows the texts of the listed documents and rejects all others.\<close>

definition parse_table :: "jsval list \<Rightarrow> jsval \<Rightarrow> jsval option" where
  "parse_table docs x =
     (case x of JStr s \<Rightarrow> find (\<lambda>v. json_text v = s) docs | _ \<Rightarrow> None)"

definition file_value :: "string \<Rightarrow> jsval" where
  "file_value p = JObj [(''resourceJSON'', JObj [(''fsPath'', JStr p)])]"

definition file_editor :: "string \<Rightarrow> jsval" where
  "file_editor p =
     JObj [(''id'', JStr ''workbench.editors.files.fileEditorInput''),
           (''value'', JStr (json_text (file_value p)))]"

definition leaf_data :: "int \<Rightarrow> jsval list \<Rightarrow> int list \<Rightarrow> (string \<times> jsval) list \<Rightarrow> jsval" where
  "leaf_data gid editors mru extra =
     JObj ([(''id'', JNum gid), (''editors'', JArr editors), (''mru'', JArr (map JNum mru))]
           @ extra)"

definition leaf_group :: "jsval \<Rightarrow> jsval" where
  "leaf_group d = JObj [(''type'', JStr ''leaf''), (''data'', d)]"

definition branch_group :: "jsval list \<Rightarrow> jsval" where
  "branch_group groups = JObj [(''type'', JStr ''branch''), (''data'', JArr groups)]"

definition layout :: "jsval list \<Rightarrow> int \<Rightarrow> jsval" where
  "layout groups active =
     JObj [(''editorpart.state'',
            JObj [(''serializedGrid'', JObj [(''root'', branch_group groups)]),
                  (''activeGroup'', JNum active)])]"

text \<open>
  An environment with one state database, whose two keys hold \<open>editor_state\<close> and
  \<open>view_state\<close>, no colours, no process inspection and silent child processes.
\<close>

definition example_env ::
  "jsval list \<Rightarrow> string option \<Rightarrow> string option \<Rightarrow> (string \<Rightarrow> file_state) \<Rightarrow> js_env" where
  "example_env docs editor_state view_state fs =
     \<lparr>JSON_parse = parse_table docs,
      coerced_le = (\<lambda>a b. False), coerced_gt = (\<lambda>a b. False),
      exec_lsof = (\<lambda>p. None), match_cwd = (\<lambda>s. None),
      exec_sqlite3 = (\<lambda>db q. if db \<noteq> ''/storage/1/state.vscdb'' then None
                              else if q = editor_query then editor_state
                              else if q = selection_query then view_state else None),
      path_resolve = (\<lambda>p. p), fs_file = fs,
      chalk_gray = (\<lambda>s. s), chalk_yellow = (\<lambda>s. s), chalk_cyan = (\<lambda>s. s),
      chalk_blue = (\<lambda>s. s), chalk_magenta = (\<lambda>s. s), chalk_hex_86efac = (\<lambda>s. s),
      child_stderr = []\<rparr>"

definition example_ws :: workspace where
  "example_ws = \<lparr>ws_id = ''1'', folder = ''/repo'', stateDbPath = ''/storage/1/state.vscdb''\<rparr>"

text \<open>
  One group holding \<open>README.md\<close> at index 0 and \<open>a.js\<close> at index 1, with \<open>sticky\<close> 1.
\<close>

definition sticky_leaf :: jsval where
  "sticky_leaf =
     leaf_data 1 [file_editor ''/repo/README.md'', file_editor ''/repo/src/a.js''] [1, 0]
       [(''sticky'', JNum 1)]"

definition sticky_layout :: jsval where
  "sticky_layout = layout [leaf_group sticky_leaf] 1"

definition sticky_env :: js_env where
  "sticky_env =
     example_env [sticky_layout, file_value ''/repo/README.md'', file_value ''/repo/src/a.js'']
       (Some (json_text sticky_layout)) None (\<lambda>p. Missing)"

text \<open>The same group with no \<open>sticky\<close> recorded.\<close>

definition plain_leaf :: jsval where
  "plain_leaf =
     leaf_data 1 [file_editor ''/repo/README.md'', file_editor ''/repo/src/a.js''] [1, 0] []"

text \<open>
  A layout with two panes side by side and the right one split again: the active group 3
  sits inside a branch.
\<close>

definition nested_layout :: jsval where
  "nested_layout =
     layout [leaf_group (leaf_data 1 [file_editor ''/repo/README.md''] [0] []),
             branch_group
               [leaf_group (leaf_data 2 [file_editor ''/repo/package.json''] [0] []),
                leaf_group (leaf_data 3 [file_editor ''/repo/src/a.js''] [0] [])]] 3"

definition nested_env :: js_env where
  "nested_env =
     example_env [nested_layout, file_value ''/repo/README.md'',
                  file_value ''/repo/package.json'', file_value ''/repo/src/a.js'']
       (Some (json_text nested_layout)) None (\<lambda>p. Missing)"

text \<open>The tabs of the first example.\<close>

definition sticky_tabs :: "open_file list" where
  "sticky_tabs =
     [\<lparr>path = JStr ''/repo/README.md'', type = File, pinned = True, groupId = JNum 1,
       index = 0, metadata = None, selections = None\<rparr>,
      \<lparr>path = JStr ''/repo/src/a.js'', type = File, pinned = True, groupId = JNum 1,
       index = 1, metadata = None, selections = None\<rparr>]"

text \<open>The tabs of the group without \<open>sticky\<close>.\<close>

definition plain_tabs :: "open_file list" where
  "plain_tabs =
     [\<lparr>path = JStr ''/repo/README.md'', type = File, pinned = False, groupId = JNum 1,
       index = 0, metadata = None, selections = None\<rparr>,
      \<lparr>path = JStr ''/repo/src/a.js'', type = File, pinned = False, groupId = JNum 1,
       index = 1, metadata = None, selections = None\<rparr>]"

text \<open>
  Selection state: a backward selection in \<open>a.js\<close> from (10, 5) back to (8, 1), and a
  cursor in \<open>README.md\<close> whose anchor and position coincide.
\<close>

definition position_value :: "nat \<Rightarrow> nat \<Rightarrow> jsval" where
  "position_value l c = JObj [(''lineNumber'', JNum (int l)), (''column'', JNum (int c))]"

definition cursor_value :: "jsval \<Rightarrow> jsval \<Rightarrow> jsval \<Rightarrow> jsval" where
  "cursor_value flag a p =
     JObj [(''inSelectionMode'', flag), (''selectionStart'', a), (''position'', p)]"

definition view_state :: "jsval \<Rightarrow> jsval" where
  "view_state c = JObj [(''cursorState'', JArr [c])]"

definition selection_doc :: jsval where
  "selection_doc =
     JObj [(''textEditorViewState'',
            JArr [JArr [JStr ''file:///repo/src/a.js'',
                        JObj [(''0'', view_state (cursor_value (JBool True)
                                        (position_value 10 5) (position_value 8 1)))]],
                  JArr [JStr ''file:///repo/README.md'',
                        JObj [(''0'', view_state (cursor_value (JBool True)
                                        (position_value 3 7) (position_value 3 7)))]]])]"

definition selection_env :: js_env where
  "selection_env =
     example_env [sticky_layout, file_value ''/repo/README.md'', file_value ''/repo/src/a.js'',
                  selection_doc]
       (Some (json_text sticky_layout)) (Some (json_text selection_doc)) (\<lambda>p. Missing)"

text \<open>
  A state database that cannot be queried, and one whose documents are not JSON, beside
  a file that cannot be read.
\<close>

definition silent_env :: js_env where
  "silent_env = example_env [] None None (\<lambda>p. Missing)"

definition broken_env :: js_env where
  "broken_env =
     example_env [] (Some ''not json'') (Some ''not json'')
       (\<lambda>p. if p = ''/repo/locked'' then Unreadable ''EACCES: permission denied'' else Missing)"

text \<open>Workspaces for the prefix match.\<close>

definition ab_workspaces :: "workspace list" where
  "ab_workspaces =
     [\<lparr>ws_id = ''7'', folder = ''/a/b'', stateDbPath = ''/storage/7/state.vscdb''\<rparr>,
      \<lparr>ws_id = ''8'', folder = ''/a'', stateDbPath = ''/storage/8/state.vscdb''\<rparr>]"

definition no_options :: global_options where
  "no_options =
     \<lparr>json = False, opt_content = None, terminals = False, opt_legacyFormat = False,
      opt_allSelections = False, smart = Some True, refresh = Some True\<rparr>"

section \<open>The text of a range, as the specification describes it\<close>

text \<open>
  These two definitions follow the words of the specification, not the code. A range is
  \<open>(startLine, startCol, endLine, endCol)\<close>, 1-based and inclusive of the character at
  the end column. It is valid for a list of lines when it lies within their line and
  column bounds, start not after end.
\<close>

definition valid_range :: "string list \<Rightarrow> nat \<Rightarrow> nat \<Rightarrow> nat \<Rightarrow> nat \<Rightarrow> bool" where
  "valid_range lines sl sc el ec \<longleftrightarrow>
     1 \<le> sl \<and> sl \<le> el \<and> el \<le> length lines
     \<and> 1 \<le> sc \<and> sc \<le> length (lines ! (sl - 1))
     \<and> 1 \<le> ec \<and> ec \<le> length (lines ! (el - 1))
     \<and> (sl = el \<longrightarrow> sc \<le> ec)"

text \<open>
  The text of a range: on one line the columns from start to end; over several lines the
  tail of the start line, every line between (empty ones too) and the head of the end
  line, joined by line breaks.
\<close>

definition range_text :: "string list \<Rightarrow> nat \<Rightarrow> nat \<Rightarrow> nat \<Rightarrow> nat \<Rightarrow> string" where
  "range_text lines sl sc el ec =
     (if sl = el then take (ec + 1 - sc) (drop (sc - 1) (lines ! (sl - 1)))
      else join [CHR 0x0A]
             ([drop (sc - 1) (lines ! (sl - 1))]
              @ map (\<lambda>i. lines ! i) [sl ..< el - 1]
              @ [take ec (lines ! (el - 1))]))"

section \<open>Example files and snapshots\<close>

text \<open>An environment whose file system holds the listed files and nothing else.\<close>

definition files_env :: "(string \<times> string) list \<Rightarrow> js_env" where
  "files_env files =
     example_env [] None None
       (\<lambda>p. case map_of files p of Some c \<Rightarrow> Content c | None \<Rightarrow> Missing)"

definition source_text :: string where
  "source_text = ''const a = 1;\<newline>const b = 2;\<newline>export { a, b };''"

text \<open>
  A source file, a file with two blanks between its words, and a file whose second line
  is empty.
\<close>

definition text_env :: js_env where
  "text_env =
     files_env [(''/repo/src/a.js'', source_text), (''/repo/notes.txt'', ''a  b''),
                (''/repo/gap.txt'', ''ab\<newline>\<newline>cd'')]"

text \<open>
  A snapshot with \<open>README.md\<close> open and pinned, an empty snapshot, and the options of
  smart mode.
\<close>

definition readme_tab :: open_file where
  "readme_tab =
     \<lparr>path = JStr ''/repo/README.md'', type = File, pinned = True, groupId = JNum 1,
      index = 0, metadata = None, selections = Some []\<rparr>"

definition pinned_context :: raw_context where
  "pinned_context =
     \<lparr>ctx_workspace = \<lparr>info_id = ''1'', info_folder = ''/repo''\<rparr>,
      openFiles = [readme_tab], pinnedFiles = [readme_tab], ctx_selections = [],
      activeFile = JStr ''/repo/README.md''\<rparr>"

definition empty_context :: raw_context where
  "empty_context =
     \<lparr>ctx_workspace = \<lparr>info_id = ''1'', info_folder = ''/repo''\<rparr>,
      openFiles = [], pinnedFiles = [], ctx_selections = [], activeFile = JNull\<rparr>"

definition smart_options :: format_options where
  "smart_options =
     \<lparr>includeTerminals = False, includeContent = False, includePinnedContent = False,
      legacyFormat = False, smartMode = Some True\<rparr>"

definition readme_env :: "string \<Rightarrow> js_env" where
  "readme_env c = files_env [(''/repo/README.md'', c)]"

text \<open>
  One group with a file, a terminal and a second file, whose most recently used tab is
  the given index.
\<close>

definition terminal_value :: jsval where
  "terminal_value =
     JObj [(''id'', JNum 1), (''pid'', JNum 7), (''title'', JStr ''zsh''),
           (''cwd'', JStr ''/repo'')]"

definition terminal_editor :: jsval where
  "terminal_editor =
     JObj [(''id'', JStr ''workbench.editors.terminal''),
           (''value'', JStr (json_text terminal_value))]"

definition mru_layout :: "int list \<Rightarrow> jsval" where
  "mru_layout mru =
     layout [leaf_group (leaf_data 1 [file_editor ''/repo/README.md'', terminal_editor,
                                       file_editor ''/repo/src/a.js''] mru [])] 1"

definition mru_env :: "int list \<Rightarrow> js_env" where
  "mru_env mru =
     example_env [mru_layout mru, file_value ''/repo/README.md'', terminal_value,
                  file_value ''/repo/src/a.js'']
       (Some (json_text (mru_layout mru))) None (\<lambda>p. Missing)"

section \<open>Pinned tabs\<close>

lemma collect_mem:
  "collect f xs = Some ys \<Longrightarrow> y \<in> set ys \<Longrightarrow> \<exists>x \<in> set xs. \<exists>zs. f x = Some zs \<and> y \<in> set zs"
proof (induction xs arbitrary: ys)
  case Nil
  then show ?case by (simp add: collect_def)
next
  case (Cons x xs)
  from Cons.prems(1) obtain zs rest where fx: "f x = Some zs" and r: "collect f xs = Some rest"
    and ys: "ys = zs @ rest"
    by (auto simp: collect_def split: option.splits)
  with Cons.prems(2) consider "y \<in> set zs" | "y \<in> set rest" by auto
  then show ?case
  proof cases
    case 1
    with fx show ?thesis by auto
  next
    case 2
    from Cons.IH[OF r 2] show ?thesis by auto
  qed
qed

lemma editor_entry_fields:
  "editor_entry env gdata sticky editor i = Some fs \<Longrightarrow> f \<in> set fs \<Longrightarrow>
     pinned f = is_pinned env sticky i \<and> index f = i \<and> groupId f = get_field gdata ''id''"
  by (auto simp: editor_entry_def Let_def split: if_splits bind_splits)

lemma processEditor_fields:
  "processEditor env gdata sticky (i, editor) = Some fs \<Longrightarrow> f \<in> set fs \<Longrightarrow>
     pinned f = is_pinned env sticky i \<and> index f = i \<and> groupId f = get_field gdata ''id''"
  by (auto simp: processEditor_def split: if_splits bind_splits option.splits
      dest: editor_entry_fields)

text \<open>
  Every tab of a leaf carries the group's id, its own position among the group's
  editors, and the pinned flag computed from the group's \<open>sticky\<close> and that position.
\<close>

lemma processLeaf_fields:
  assumes "processLeaf env gdata = Some fs" and "f \<in> set fs"
    and "get_field gdata ''editors'' = JArr editors"
  shows "pinned f = is_pinned env (get_field gdata ''sticky'') (index f)
     \<and> groupId f = get_field gdata ''id'' \<and> index f < length editors"
proof -
  from assms(1,3) have
    c: "collect (processEditor env gdata (get_field gdata ''sticky'')) (enumerate 0 editors) = Some fs"
    by (auto simp: processLeaf_def split: jsval.splits)
  from collect_mem[OF c assms(2)] obtain ie zs where ie: "ie \<in> set (enumerate 0 editors)" and
    "processEditor env gdata (get_field gdata ''sticky'') ie = Some zs" "f \<in> set zs" by blast
  then have "pinned f = is_pinned env (get_field gdata ''sticky'') (fst ie) \<and> index f = fst ie
      \<and> groupId f = get_field gdata ''id''"
    using processEditor_fields[of env gdata _ "fst ie" "snd ie" zs f] by simp
  moreover from ie have "fst ie < length editors"
    by (simp add: in_set_enumerate_eq)
  ultimately show ?thesis by simp
qed

lemma is_pinned_num: "is_pinned env (JNum n) i = (int i \<le> n)"
  by (simp add: is_pinned_def js_le_def)

lemma is_pinned_absent: "nullish s \<Longrightarrow> is_pinned env s i = False"
  by (auto simp: is_pinned_def nullish_def)

text \<open>
  Every tab of the traversal comes from a leaf group it reaches, so what holds for the
  tabs of every leaf holds for the tabs of every document.
\<close>

lemma tabs_come_from_leaves:
  "processGridData env d = Some fs \<Longrightarrow> f \<in> set fs
     \<Longrightarrow> \<exists>l lfs. leaf_in d l \<and> processLeaf env l = Some lfs \<and> f \<in> set lfs"
proof (induction env d arbitrary: fs rule: processGridData.induct)
  case (1 env d)
  let ?F = "\<lambda>g. (case get_prop g ''type'' of
               None \<Rightarrow> None
             | Some t \<Rightarrow>
                 if strict_eq t (JStr ''leaf'')
                    \<and> truthy (opt_prop (get_field g ''data'') ''editors'')
                 then processLeaf env (get_field g ''data'')
                 else if strict_eq t (JStr ''branch'') \<and> truthy (get_field g ''data'')
                 then processGridData env (get_field g ''data'')
                 else Some [])"
  from "1.prems"(1) obtain gs where it: "iterate d = Some gs" and c: "collect ?F gs = Some fs"
    by (subst (asm) processGridData.simps) (auto split: option.splits)
  from collect_mem[OF c "1.prems"(2)] obtain g zs where g: "g \<in> set gs"
    and Fg: "?F g = Some zs" and fz: "f \<in> set zs" by blast
  from Fg obtain t where t: "get_prop g ''type'' = Some t" by (auto split: option.splits)
  then have tf: "t = get_field g ''type''" by (auto simp: get_prop_def split: if_splits)
  show ?case
  proof (cases "strict_eq t (JStr ''leaf'') \<and> truthy (opt_prop (get_field g ''data'') ''editors'')")
    case True
    with Fg t have "processLeaf env (get_field g ''data'') = Some zs" by simp
    moreover from True tf it g have "leaf_in d (get_field g ''data'')"
      by (auto intro: leaf_in.leaf)
    ultimately show ?thesis using fz by blast
  next
    case False
    show ?thesis
    proof (cases "strict_eq t (JStr ''branch'') \<and> truthy (get_field g ''data'')")
      case True
      with False Fg t have r: "processGridData env (get_field g ''data'') = Some zs"
        by (auto split: if_splits)
      from "1.IH"[OF it g t False True r fz] obtain l lfs where
        "leaf_in (get_field g ''data'') l" "processLeaf env l = Some lfs" "f \<in> set lfs" by blast
      moreover from this(1) True tf it g have "leaf_in d l"
        by (auto intro: leaf_in.branch)
      ultimately show ?thesis by blast
    next
      case b: False
      with False Fg t have "zs = []" by (auto split: if_splits)
      with fz show ?thesis by simp
    qed
  qed
qed

lemma open_tabs_come_from_leaves:
  assumes "f \<in> set (getOpenFiles env ws)"
  shows "\<exists>v editorState gridData l.
           queryDatabase env (stateDbPath ws) editor_query = Some v
         \<and> JSON_parse env (JStr v) = Some editorState
         \<and> gridData_of editorState = Some gridData
         \<and> leaf_in gridData l
         \<and> groupId f = get_field l ''id''
         \<and> pinned f = is_pinned env (get_field l ''sticky'') (index f)"
proof -
  from assms obtain fs where t: "getOpenFiles_try env ws = Some fs" and f: "f \<in> set fs"
    by (cases "getOpenFiles_try env ws") (auto simp: getOpenFiles_def)
  from t f obtain v where q: "queryDatabase env (stateDbPath ws) editor_query = Some v"
    by (cases "queryDatabase env (stateDbPath ws) editor_query")
       (auto simp: getOpenFiles_try_def)
  from t q obtain editorState gridData where p: "JSON_parse env (JStr v) = Some editorState"
    and g: "gridData_of editorState = Some gridData"
    and r: "processGridData env gridData = Some fs"
    by (auto simp: getOpenFiles_try_def split: bind_splits)
  from tabs_come_from_leaves[OF r f] obtain l lfs where l: "leaf_in gridData l"
    and pl: "processLeaf env l = Some lfs" and fl: "f \<in> set lfs" by blast
  from pl obtain editors where "get_field l ''editors'' = JArr editors"
    by (auto simp: processLeaf_def split: jsval.splits)
  from processLeaf_fields[OF pl fl this] q p g l show ?thesis by blast
qed

text \<open>
  Claim C1, as the code has it. For a leaf group whose \<open>sticky\<close> is the number \<open>n\<close>, every
  tab produced from the group's editors has an index within the editor list and is
  pinned exactly when that index is at most \<open>n\<close>: the comparison is \<open>index <= sticky\<close>, so
  the tab whose index equals \<open>sticky\<close> is pinned too.
\<close>

theorem pinned_iff_index_le_sticky:
  assumes "get_field gdata ''editors'' = JArr editors"
    and "get_field gdata ''sticky'' = JNum n"
    and "processLeaf env gdata = Some fs"
    and "f \<in> set fs"
  shows "index f < length editors \<and> (pinned f \<longleftrightarrow> int (index f) \<le> n)"
  using processLeaf_fields[OF assms(3,4,1)] assms(2) by (simp add: is_pinned_num)

theorem pinned_iff_index_le_sticky_witness:
  "get_field sticky_leaf ''editors''
     = JArr [file_editor ''/repo/README.md'', file_editor ''/repo/src/a.js'']
   \<and> get_field sticky_leaf ''sticky'' = JNum 1
   \<and> processLeaf sticky_env sticky_leaf = Some sticky_tabs
   \<and> sticky_tabs ! 1 \<in> set sticky_tabs
   \<and> index (sticky_tabs ! 1)
       < length [file_editor ''/repo/README.md'', file_editor ''/repo/src/a.js'']
   \<and> (pinned (sticky_tabs ! 1) \<longleftrightarrow> int (index (sticky_tabs ! 1)) \<le> 1)"
proof -
  have h1: "get_field sticky_leaf ''editors''
     = JArr [file_editor ''/repo/README.md'', file_editor ''/repo/src/a.js'']"
    by (simp add: sticky_leaf_def leaf_data_def)
  have h2: "get_field sticky_leaf ''sticky'' = JNum 1"
    by (simp add: sticky_leaf_def leaf_data_def)
  have h3: "processLeaf sticky_env sticky_leaf = Some sticky_tabs"
    by code_simp
  have h4: "sticky_tabs ! 1 \<in> set sticky_tabs"
    by (simp add: sticky_tabs_def)
  from pinned_iff_index_le_sticky[OF h1 h2 h3 h4] h1 h2 h3 h4 show ?thesis by blast
qed

text \<open>
  Claim C1, as stated, fails on the scenario of the specification: with \<open>sticky\<close> 1,
  \<open>README.md\<close> at index 0 and \<open>a.js\<close> at index 1, the tab of \<open>a.js\<close> is pinned although its
  index is not less than 1.
\<close>

theorem sticky_boundary_counterexample:
  "getOpenFiles sticky_env example_ws = sticky_tabs
   \<and> \<not> (pinned (sticky_tabs ! 1) \<longleftrightarrow> int (index (sticky_tabs ! 1)) < 1)"
  by code_simp

text \<open>
  Claim C10. For a leaf group whose \<open>sticky\<close> is absent (\<open>undefined\<close> or \<open>null\<close>), no tab
  produced from the group is pinned, whatever its index.
\<close>

theorem absent_sticky_never_pinned:
  assumes "nullish (get_field gdata ''sticky'')"
    and "processLeaf env gdata = Some fs"
    and "f \<in> set fs"
  shows "\<not> pinned f"
proof -
  from assms(2) obtain editors where "get_field gdata ''editors'' = JArr editors"
    by (auto simp: processLeaf_def split: jsval.splits)
  from processLeaf_fields[OF assms(2,3) this] assms(1) show ?thesis
    by (simp add: is_pinned_absent)
qed

theorem absent_sticky_never_pinned_witness:
  "nullish (get_field plain_leaf ''sticky'')
   \<and> processLeaf sticky_env plain_leaf = Some plain_tabs
   \<and> plain_tabs ! 0 \<in> set plain_tabs
   \<and> \<not> pinned (plain_tabs ! 0)"
proof -
  have h1: "nullish (get_field plain_leaf ''sticky'')"
    by (simp add: plain_leaf_def leaf_data_def nullish_def)
  have h2: "processLeaf sticky_env plain_leaf = Some plain_tabs"
    by code_simp
  have h3: "plain_tabs ! 0 \<in> set plain_tabs"
    by (simp add: plain_tabs_def)
  from absent_sticky_never_pinned[OF h1 h2 h3] h1 h2 h3 show ?thesis by blast
qed

section \<open>Flattening the grid\<close>

lemma collect_single: "collect f [x] = f x"
  by (cases "f x") (simp_all add: collect_def)

text \<open>
  The tabs of a grid are the tabs of its groups, each flattened on its own, in order;
  a group that throws makes the whole traversal throw.
\<close>

theorem grid_is_concatenation_of_groups:
  "processGridData env (JArr gs) = collect (\<lambda>g. processGridData env (JArr [g])) gs"
  by (simp add: processGridData.simps[of env "JArr gs"] processGridData.simps[of env "JArr [g]" for g]
      collect_single cong: collect_cong)

section \<open>The active file\<close>

text \<open>
  Claim C3 at a layout whose active group sits inside a branch: group 3 is active and
  its most recently used tab is the file \<open>/repo/src/a.js\<close>, which \<open>getOpenFiles\<close> lists
  as the third tab; \<open>getActiveFile\<close> looks at the top level of the grid only and
  returns \<open>null\<close>.
\<close>

theorem nested_active_group_not_found:
  "getActiveFile nested_env example_ws = JNull
   \<and> path (getOpenFiles nested_env example_ws ! 2) = JStr ''/repo/src/a.js''
   \<and> groupId (getOpenFiles nested_env example_ws ! 2) = JNum 3"
  by code_simp

text \<open>
  The scenario of the specification, for a group at the top level of the grid: with
  editors \<open>[README.md, terminal, a.js]\<close> and most-recently-used order \<open>[2, 0, 1]\<close> the
  active file is \<open>a.js\<close>; when the terminal is the most recently used tab there is none.
\<close>

theorem active_file_is_first_of_mru:
  "getActiveFile (mru_env [2, 0, 1]) example_ws = JStr ''/repo/src/a.js''
   \<and> getActiveFile (mru_env [1, 0, 2]) example_ws = JNull
   \<and> path (getOpenFiles (mru_env [1, 0, 2]) example_ws ! 1) = JStr ''Terminal: zsh (PID: 7)''"
  by code_simp

section \<open>Selections\<close>








text \<open>
  Claim C5. A view state contributes a range exactly when the \<open>inSelectionMode\<close> of its
  first cursor state is literally \<open>true\<close>, anchor and position are both present, and they
  differ (by \<open>!==\<close>) in line or in column; it never contributes more than one. So a
  state whose flag is anything else, or whose anchor equals its position in line and
  column, contributes nothing.
\<close>

theorem range_only_for_flagged_nonempty_selection:
  fixes st :: jsval
  defines "c \<equiv> opt_index (get_field st ''cursorState'') (JNum 0)"
  defines "a \<equiv> get_field c ''selectionStart''" and "p \<equiv> get_field c ''position''"
  assumes "state_ranges env st = Some rs"
  shows "(rs \<noteq> [] \<longleftrightarrow>
            opt_prop c ''inSelectionMode'' = JBool True \<and> truthy a \<and> truthy p
          \<and> \<not> (strict_eq (get_field a ''lineNumber'') (get_field p ''lineNumber'')
               \<and> strict_eq (get_field a ''column'') (get_field p ''column'')))
       \<and> length rs \<le> 1"
proof -
  from assms(4) have rs: "rs = cursor_ranges env c"
    by (auto simp: state_ranges_def get_prop_def c_def split: if_splits)
  have flag: "strict_eq v (JBool True) \<longleftrightarrow> v = JBool True" for v
    by (cases v) auto
  show ?thesis unfolding rs
    by (auto simp: cursor_ranges_def Let_def flag a_def p_def)
qed

theorem range_only_for_flagged_nonempty_selection_witness:
  "state_ranges selection_env
      (view_state (cursor_value (JBool True) (position_value 3 7) (position_value 3 7)))
     = Some []
   \<and> state_ranges selection_env
      (view_state (cursor_value (JBool True) (position_value 10 5) (position_value 8 1)))
     = Some [''L8:C1-L10:C5'']
   \<and> ([''L8:C1-L10:C5''] \<noteq> [] \<longleftrightarrow>
        opt_prop (opt_index (get_field (view_state (cursor_value (JBool True)
             (position_value 10 5) (position_value 8 1))) ''cursorState'') (JNum 0))
           ''inSelectionMode'' = JBool True)
   \<and> getSelections selection_env example_ws
     = [\<lparr>sel_file = ''/repo/src/a.js'', ranges = [''L8:C1-L10:C5''], content = None\<rparr>]"
proof -
  have h1: "state_ranges selection_env
      (view_state (cursor_value (JBool True) (position_value 3 7) (position_value 3 7)))
     = Some []"
    by code_simp
  have h2: "state_ranges selection_env
      (view_state (cursor_value (JBool True) (position_value 10 5) (position_value 8 1)))
     = Some [''L8:C1-L10:C5'']"
    by code_simp
  have h3: "getSelections selection_env example_ws
     = [\<lparr>sel_file = ''/repo/src/a.js'', ranges = [''L8:C1-L10:C5''], content = None\<rparr>]"
    by code_simp
  from range_only_for_flagged_nonempty_selection[OF h1]
       range_only_for_flagged_nonempty_selection[OF h2] h1 h2 h3
  show ?thesis by blast
qed

section \<open>Finding the workspace\<close>

lemma find_first:
  "find P xs = Some x \<Longrightarrow> \<exists>i < length xs. xs ! i = x \<and> P x \<and> (\<forall>j < i. \<not> P (xs ! j))"
  by (auto simp: find_Some_iff)

text \<open>
  Claim C6. \<open>findWorkspaceByFile\<close> returns the first workspace of the list whose folder
  is a prefix, character by character, of the resolved path, and finds one whenever some
  folder is such a prefix; nothing asks for a path separator after the prefix. When no
  folder is a prefix, it finds nothing, \<open>getRawContext\<close> throws the error
  \<open>No workspace found for file\<close>, and every command prints it to standard error and
  exits with code 1.
\<close>

theorem workspace_by_textual_prefix:
  "(findWorkspaceByFile env wss fp = Some ws \<longrightarrow>
      (\<exists>i < length wss. wss ! i = ws \<and> prefix (folder ws) (path_resolve env fp)
         \<and> (\<forall>j < i. \<not> prefix (folder (wss ! j)) (path_resolve env fp))))
   \<and> ((\<exists>w \<in> set wss. prefix (folder w) (path_resolve env fp)) \<longrightarrow>
         findWorkspaceByFile env wss fp \<noteq> None)
   \<and> ((\<forall>w \<in> set wss. \<not> prefix (folder w) (path_resolve env fp)) \<longrightarrow>
         findWorkspaceByFile env wss fp = None
       \<and> getRawContext env wss fp options
           = Inl (Error (''No workspace found for file: '' @ fp))
       \<and> raw_command env stringify (Inr wss) fp g
           = \<lparr>stdout = [], stderr = ''Error: No workspace found for file: '' @ fp @ [CHR 0x0A],
              exit_code = 1\<rparr>
       \<and> exit_code (open_command env (Inr wss) fp g) = 1
       \<and> exit_code (pinned_command env (Inr wss) fp g) = 1
       \<and> exit_code (selections_command env (Inr wss) fp g) = 1
       \<and> exit_code (workspace_command env (Inr wss) fp) = 1)"
proof (intro conjI impI)
  assume "findWorkspaceByFile env wss fp = Some ws"
  then show "\<exists>i < length wss. wss ! i = ws \<and> prefix (folder ws) (path_resolve env fp)
         \<and> (\<forall>j < i. \<not> prefix (folder (wss ! j)) (path_resolve env fp))"
    unfolding findWorkspaceByFile_def by (rule find_first)
next
  assume "\<exists>w \<in> set wss. prefix (folder w) (path_resolve env fp)"
  then show "findWorkspaceByFile env wss fp \<noteq> None"
    by (auto simp: findWorkspaceByFile_def find_None_iff)
next
  assume none: "\<forall>w \<in> set wss. \<not> prefix (folder w) (path_resolve env fp)"
  then show n: "findWorkspaceByFile env wss fp = None"
    by (simp add: findWorkspaceByFile_def find_None_iff)
  have r: "getRawContext env wss fp opts = Inl (Error (''No workspace found for file: '' @ fp))"
    for opts by (simp add: getRawContext_def n)
  show "getRawContext env wss fp options = Inl (Error (''No workspace found for file: '' @ fp))"
    by (rule r)
  show "raw_command env stringify (Inr wss) fp g
           = \<lparr>stdout = [], stderr = ''Error: No workspace found for file: '' @ fp @ [CHR 0x0A],
              exit_code = 1\<rparr>"
    by (simp add: raw_command_def run_action_def r exit_with_error_def)
  show "exit_code (open_command env (Inr wss) fp g) = 1"
    by (simp add: open_command_def run_action_def r exit_with_error_def)
  show "exit_code (pinned_command env (Inr wss) fp g) = 1"
    by (simp add: pinned_command_def run_action_def r exit_with_error_def)
  show "exit_code (selections_command env (Inr wss) fp g) = 1"
    by (simp add: selections_command_def run_action_def r exit_with_error_def)
  show "exit_code (workspace_command env (Inr wss) fp) = 1"
    by (simp add: workspace_command_def run_action_def r exit_with_error_def)
qed

theorem workspace_by_textual_prefix_witness:
  "findWorkspaceByFile silent_env ab_workspaces ''/a/bc/x.js'' = Some (ab_workspaces ! 0)
   \<and> folder (ab_workspaces ! 0) = ''/a/b''
   \<and> (\<exists>i < length ab_workspaces. ab_workspaces ! i = ab_workspaces ! 0
        \<and> prefix (folder (ab_workspaces ! 0)) (path_resolve silent_env ''/a/bc/x.js'')
        \<and> (\<forall>j < i. \<not> prefix (folder (ab_workspaces ! j)) (path_resolve silent_env ''/a/bc/x.js'')))
   \<and> findWorkspaceByFile silent_env ab_workspaces ''/c/x.js'' = None
   \<and> raw_command silent_env (\<lambda>ctx. []) (Inr ab_workspaces) ''/c/x.js'' no_options
       = \<lparr>stdout = [], stderr = ''Error: No workspace found for file: /c/x.js\<newline>'',
          exit_code = 1\<rparr>"
proof -
  have h1: "findWorkspaceByFile silent_env ab_workspaces ''/a/bc/x.js''
              = Some (ab_workspaces ! 0)"
    by code_simp
  have h2: "folder (ab_workspaces ! 0) = ''/a/b''"
    by code_simp
  have h3: "\<forall>w \<in> set ab_workspaces. \<not> prefix (folder w) (path_resolve silent_env ''/c/x.js'')"
    by (simp add: ab_workspaces_def silent_env_def example_env_def)
  from workspace_by_textual_prefix
         [of silent_env ab_workspaces "''/a/bc/x.js''" "ab_workspaces ! 0"] h1
  have c1: "\<exists>i < length ab_workspaces. ab_workspaces ! i = ab_workspaces ! 0
        \<and> prefix (folder (ab_workspaces ! 0)) (path_resolve silent_env ''/a/bc/x.js'')
        \<and> (\<forall>j < i. \<not> prefix (folder (ab_workspaces ! j)) (path_resolve silent_env ''/a/bc/x.js''))"
    by blast
  from workspace_by_textual_prefix
         [of silent_env ab_workspaces "''/c/x.js''" _ _ "\<lambda>ctx. []" no_options] h3
  have c2: "findWorkspaceByFile silent_env ab_workspaces ''/c/x.js'' = None
     \<and> raw_command silent_env (\<lambda>ctx. []) (Inr ab_workspaces) ''/c/x.js'' no_options
       = \<lparr>stdout = [], stderr = ''Error: No workspace found for file: '' @ ''/c/x.js'' @ [CHR 0x0A],
          exit_code = 1\<rparr>"
    by blast
  from h1 h2 c1 c2 show ?thesis by simp
qed

section \<open>Failures below the top level\<close>

text \<open>
  Claim C7. The extraction operations return values, never exceptions: whatever is thrown
  inside \<open>getOpenFiles\<close>, \<open>getSelections\<close> or \<open>getActiveFile\<close> ends in \<open>[]\<close>, \<open>[]\<close> or
  \<open>null\<close>. In particular a key that is missing or a database that cannot be queried, and
  a document that is not JSON, give the empty list or \<open>null\<close>; a file that is missing or
  unreadable gives \<open>null\<close> from \<open>extractSelectedContent\<close>; an editor whose nested
  descriptor does not parse is skipped alone; and a process whose working directory
  cannot be resolved has none.
\<close>

theorem extraction_degrades_to_empty:
  "(queryDatabase env (stateDbPath ws) editor_query = None \<longrightarrow>
       getOpenFiles env ws = [] \<and> getActiveFile env ws = JNull)
   \<and> (queryDatabase env (stateDbPath ws) selection_query = None \<longrightarrow>
       getSelections env ws = [])
   \<and> (queryDatabase env (stateDbPath ws) editor_query = Some v \<and> JSON_parse env (JStr v) = None
       \<longrightarrow> getOpenFiles env ws = [] \<and> getActiveFile env ws = JNull)
   \<and> (queryDatabase env (stateDbPath ws) selection_query = Some v' \<and> JSON_parse env (JStr v') = None
       \<longrightarrow> getSelections env ws = [])
   \<and> (getOpenFiles_try env ws = None \<longrightarrow> getOpenFiles env ws = [])
   \<and> (getSelections_try env ws = None \<longrightarrow> getSelections env ws = [])
   \<and> (getActiveFile_try env ws = None \<longrightarrow> getActiveFile env ws = JNull)
   \<and> ((fs_file env p = Missing \<or> (\<exists>msg. fs_file env p = Unreadable msg)) \<longrightarrow>
       extractSelectedContent env p rs = None)
   \<and> (\<not> nullish editor \<and> truthy (get_field editor ''value'')
        \<and> JSON_parse env (get_field editor ''value'') = None \<longrightarrow>
       processEditor env gdata sticky (i, editor) = Some [])
   \<and> (exec_lsof env proc = None \<longrightarrow> realCwd env proc = [])"
  by (auto simp: getOpenFiles_def getOpenFiles_try_def getActiveFile_def getActiveFile_try_def
      getSelections_def getSelections_try_def extractSelectedContent_def processEditor_def
      editor_entry_def get_prop_def realCwd_def)

theorem extraction_degrades_to_empty_witness:
  "queryDatabase silent_env (stateDbPath example_ws) editor_query = None
   \<and> queryDatabase silent_env (stateDbPath example_ws) selection_query = None
   \<and> getOpenFiles silent_env example_ws = []
   \<and> getActiveFile silent_env example_ws = JNull
   \<and> getSelections silent_env example_ws = []
   \<and> queryDatabase broken_env (stateDbPath example_ws) editor_query = Some ''not json''
   \<and> queryDatabase broken_env (stateDbPath example_ws) selection_query = Some ''not json''
   \<and> JSON_parse broken_env (JStr ''not json'') = None
   \<and> getOpenFiles_try broken_env example_ws = None
   \<and> getSelections_try broken_env example_ws = None
   \<and> getActiveFile_try broken_env example_ws = None
   \<and> getOpenFiles broken_env example_ws = []
   \<and> getActiveFile broken_env example_ws = JNull
   \<and> getSelections broken_env example_ws = []
   \<and> fs_file broken_env ''/repo/locked'' = Unreadable ''EACCES: permission denied''
   \<and> extractSelectedContent broken_env ''/repo/locked'' [''L1:C1-2''] = None
   \<and> fs_file broken_env ''/repo/gone'' = Missing
   \<and> extractSelectedContent broken_env ''/repo/gone'' [''L1:C1-2''] = None
   \<and> \<not> nullish (file_editor ''/x'')
   \<and> truthy (get_field (file_editor ''/x'') ''value'')
   \<and> JSON_parse broken_env (get_field (file_editor ''/x'') ''value'') = None
   \<and> processEditor broken_env sticky_leaf (JNum 1) (0, file_editor ''/x'') = Some []
   \<and> exec_lsof broken_env (JNum 4242) = None
   \<and> realCwd broken_env (JNum 4242) = []"
proof -
  have a1: "queryDatabase silent_env (stateDbPath example_ws) editor_query = None"
    and a2: "queryDatabase silent_env (stateDbPath example_ws) selection_query = None"
    and b1: "queryDatabase broken_env (stateDbPath example_ws) editor_query = Some ''not json''"
    and b2: "queryDatabase broken_env (stateDbPath example_ws) selection_query = Some ''not json''"
    and b3: "JSON_parse broken_env (JStr ''not json'') = None"
    and b4: "getOpenFiles_try broken_env example_ws = None"
    and b5: "getSelections_try broken_env example_ws = None"
    and b6: "getActiveFile_try broken_env example_ws = None"
    by code_simp+
  have f1: "fs_file broken_env ''/repo/locked'' = Unreadable ''EACCES: permission denied''"
    and f2: "fs_file broken_env ''/repo/gone'' = Missing"
    and e1: "\<not> nullish (file_editor ''/x'')"
    and e2: "truthy (get_field (file_editor ''/x'') ''value'')"
    and e3: "JSON_parse broken_env (get_field (file_editor ''/x'') ''value'') = None"
    and l1: "exec_lsof broken_env (JNum 4242) = None"
    by code_simp+
  note s = extraction_degrades_to_empty
             [of silent_env example_ws "''not json''" "''not json''"]
  note b = extraction_degrades_to_empty
             [of broken_env example_ws "''not json''" "''not json''" "''/repo/locked''"
                 "[''L1:C1-2'']" "file_editor ''/x''" sticky_leaf "JNum 1" 0 "JNum 4242"]
  note g = extraction_degrades_to_empty
             [of broken_env example_ws "''not json''" "''not json''" "''/repo/gone''"
                 "[''L1:C1-2'']"]
  from s a1 a2 have c1: "getOpenFiles silent_env example_ws = []
     \<and> getActiveFile silent_env example_ws = JNull \<and> getSelections silent_env example_ws = []"
    by blast
  from b b1 b2 b3 f1 e1 e2 e3 l1 have c2: "getOpenFiles broken_env example_ws = []
     \<and> getActiveFile broken_env example_ws = JNull \<and> getSelections broken_env example_ws = []
     \<and> extractSelectedContent broken_env ''/repo/locked'' [''L1:C1-2''] = None
     \<and> processEditor broken_env sticky_leaf (JNum 1) (0, file_editor ''/x'') = Some []
     \<and> realCwd broken_env (JNum 4242) = []"
    by blast
  from g f2 have c3: "extractSelectedContent broken_env ''/repo/gone'' [''L1:C1-2''] = None"
    by blast
  from a1 a2 b1 b2 b3 b4 b5 b6 f1 f2 e1 e2 e3 l1 c1 c2 c3 show ?thesis by blast
qed

section \<open>Selected text\<close>

subsection \<open>Range strings are read back as they were written\<close>

lemma digit_char_props:
  assumes "d < 10"
  shows "is_digit (digit_char d)" and "digit_val (digit_char d) = d"
proof -
  from assms have "(of_char (digit_char d) :: nat) = 48 + d"
    by (simp add: digit_char_def)
  then show "is_digit (digit_char d)" and "digit_val (digit_char d) = d"
    using assms by (simp_all add: is_digit_def digit_val_def)
qed

lemma dec_nonempty: "dec n \<noteq> []"
  by (subst dec.simps) simp

lemma dec_digits: "c \<in> set (dec n) \<Longrightarrow> is_digit c"
proof (induction n rule: dec.induct)
  case (1 n)
  show ?case
  proof (cases "n < 10")
    case True
    with "1.prems" show ?thesis by (subst (asm) dec.simps) (simp add: digit_char_props)
  next
    case False
    with "1.prems" have "c \<in> set (dec (n div 10)) \<or> c = digit_char (n mod 10)"
      by (subst (asm) dec.simps) auto
    with False "1.IH" show ?thesis by (auto simp: digit_char_props)
  qed
qed

lemma parseInt_snoc: "parseInt (ds @ [c]) = 10 * parseInt ds + digit_val c"
  by (simp add: parseInt_def)

lemma parseInt_dec: "parseInt (dec n) = n"
proof (induction n rule: dec.induct)
  case (1 n)
  show ?case
  proof (cases "n < 10")
    case True
    then show ?thesis by (subst dec.simps) (simp add: parseInt_def digit_char_props)
  next
    case False
    with "1.IH" have "parseInt (dec (n div 10)) = n div 10" by simp
    with False show ?thesis
      by (subst dec.simps) (simp add: parseInt_snoc digit_char_props)
  qed
qed

lemma digits1_dec:
  assumes "rest = [] \<or> \<not> is_digit (hd rest)"
  shows "digits1 (dec n @ rest) = Some (dec n, rest)"
proof -
  have all: "\<forall>c \<in> set (dec n). is_digit c" by (simp add: dec_digits)
  have r: "takeWhile is_digit rest = []" "dropWhile is_digit rest = rest"
    using assms by (cases rest; simp)+
  have "takeWhile is_digit (dec n @ rest) = dec n"
    using all r by (simp add: takeWhile_append2)
  moreover have "dropWhile is_digit (dec n @ rest) = rest"
    using all r by (simp add: dropWhile_append2)
  ultimately show ?thesis by (simp add: digits1_def dec_nonempty)
qed

lemma strip_prefix_append: "strip_prefix p (p @ r) = Some r"
  by (simp add: strip_prefix_def)

lemma dec_not_L: "strip_prefix ''L'' (dec n @ r) = None"
proof -
  obtain c cs where d: "dec n = c # cs" using dec_nonempty by (cases "dec n") auto
  then have "is_digit c" using dec_digits[of c n] by simp
  then have "c \<noteq> CHR ''L''" by (auto simp: is_digit_def)
  then show ?thesis by (simp add: strip_prefix_def d)
qed

lemma match_here_single:
  "match_here (''L'' @ dec a @ '':C'' @ dec b @ ''-'' @ dec c)
     = Some (dec a, dec b, None, dec c)"
proof -
  have 1: "strip_prefix ''L'' (''L'' @ dec a @ '':C'' @ dec b @ ''-'' @ dec c)
             = Some (dec a @ '':C'' @ dec b @ ''-'' @ dec c)"
    by (rule strip_prefix_append)
  have 2: "digits1 (dec a @ '':C'' @ dec b @ ''-'' @ dec c)
             = Some (dec a, '':C'' @ dec b @ ''-'' @ dec c)"
    by (rule digits1_dec) (simp add: is_digit_def)
  have 3: "strip_prefix '':C'' ('':C'' @ dec b @ ''-'' @ dec c) = Some (dec b @ ''-'' @ dec c)"
    by (rule strip_prefix_append)
  have 4: "digits1 (dec b @ ''-'' @ dec c) = Some (dec b, ''-'' @ dec c)"
    by (rule digits1_dec) (simp add: is_digit_def)
  have 5: "strip_prefix ''-'' (''-'' @ dec c) = Some (dec c)"
    by (rule strip_prefix_append)
  have 6: "match_group (dec c) = None"
    using dec_not_L[of c "[]"] by (simp add: match_group_def)
  have 7: "digits1 (dec c) = Some (dec c, [])"
    using digits1_dec[of "[]" c] by simp
  show ?thesis
    unfolding match_here_def 1 by (simp only: bind.simps 2 3 4 5 6 7 prod.case option.case)
qed

lemma match_here_multi:
  "match_here (''L'' @ dec a @ '':C'' @ dec b @ ''-L'' @ dec c @ '':C'' @ dec d)
     = Some (dec a, dec b, Some (dec c), dec d)"
proof -
  have 1: "strip_prefix ''L'' (''L'' @ dec a @ '':C'' @ dec b @ ''-L'' @ dec c @ '':C'' @ dec d)
             = Some (dec a @ '':C'' @ dec b @ ''-L'' @ dec c @ '':C'' @ dec d)"
    by (rule strip_prefix_append)
  have 2: "digits1 (dec a @ '':C'' @ dec b @ ''-L'' @ dec c @ '':C'' @ dec d)
             = Some (dec a, '':C'' @ dec b @ ''-L'' @ dec c @ '':C'' @ dec d)"
    by (rule digits1_dec) (simp add: is_digit_def)
  have 3: "strip_prefix '':C'' ('':C'' @ dec b @ ''-L'' @ dec c @ '':C'' @ dec d)
             = Some (dec b @ ''-L'' @ dec c @ '':C'' @ dec d)"
    by (rule strip_prefix_append)
  have 4: "digits1 (dec b @ ''-L'' @ dec c @ '':C'' @ dec d)
             = Some (dec b, ''-L'' @ dec c @ '':C'' @ dec d)"
    by (rule digits1_dec) (simp add: is_digit_def)
  have 5: "strip_prefix ''-'' (''-L'' @ dec c @ '':C'' @ dec d)
             = Some (''L'' @ dec c @ '':C'' @ dec d)"
    using strip_prefix_append[of "''-''" "''L'' @ dec c @ '':C'' @ dec d"] by simp
  have g1: "strip_prefix ''L'' (''L'' @ dec c @ '':C'' @ dec d) = Some (dec c @ '':C'' @ dec d)"
    by (rule strip_prefix_append)
  have g2: "digits1 (dec c @ '':C'' @ dec d) = Some (dec c, '':C'' @ dec d)"
    by (rule digits1_dec) (simp add: is_digit_def)
  have g3: "strip_prefix '':C'' ('':C'' @ dec d) = Some (dec d)"
    by (rule strip_prefix_append)
  have g4: "digits1 (dec d) = Some (dec d, [])"
    using digits1_dec[of "[]" d] by simp
  have 6: "match_group (''L'' @ dec c @ '':C'' @ dec d) = Some (dec c, dec d)"
    unfolding match_group_def g1 by (simp only: bind.simps g2 g3 g4 prod.case)
  show ?thesis
    unfolding match_here_def 1 by (simp only: bind.simps 2 3 4 5 6 prod.case option.case)
qed

lemma match_range_here: "match_here s = Some m \<Longrightarrow> match_range s = Some m"
  by (cases s) simp_all

lemma dec_int_nat: "dec_int (int n) = dec n"
  by (simp add: dec_int_def)

lemma format_range_positions:
  "format_range (position_value sl sc, position_value el ec)
     = (if sl = el then ''L'' @ dec sl @ '':C'' @ dec sc @ ''-'' @ dec ec
        else ''L'' @ dec sl @ '':C'' @ dec sc @ ''-L'' @ dec el @ '':C'' @ dec ec)"
  by (simp add: format_range_def position_value_def dec_int_nat)

lemma js_substring_within:
  assumes "0 \<le> a" and "a \<le> b" and "b \<le> int (length s)"
  shows "js_substring s a b = take (nat (b - a)) (drop (nat a) s)"
  using assms by (simp add: js_substring_def Let_def min_def max_def)

lemma map_nat_upto: "map nat [int a .. int b - 1] = [a ..< b]"
proof (induction b)
  case 0
  then show ?case by simp
next
  case (Suc b)
  show ?case
  proof (cases "a \<le> b")
    case True
    then have "[int a .. int (Suc b) - 1] = [int a .. int b - 1] @ [int b]"
      using upto_rec2[of "int a" "int b"] by simp
    with Suc True show ?thesis by simp
  next
    case False
    then show ?thesis by simp
  qed
qed

lemma join_ends:
  "join sep (x # xs @ [y]) = x @ sep @ concat (map (\<lambda>l. l @ sep) xs) @ y"
  by (induction xs arbitrary: x) simp_all


lemma line_at_nat: "i < length lines \<Longrightarrow> line_at lines (int i) = Some (lines ! i)"
  by (simp add: line_at_def)

lemma selectedText_single:
  assumes "1 \<le> sl" and "sl \<le> length lines" and "1 \<le> sc" and "sc \<le> ec"
    and "ec \<le> length (lines ! (sl - 1))"
  shows "selectedText lines (int sl - 1) (int sc - 1) (int sl - 1) (int ec - 1)
           = take (ec + 1 - sc) (drop (sc - 1) (lines ! (sl - 1)))"
proof -
  let ?l = "lines ! (sl - 1)"
  from assms have e: "int sl - 1 = int (sl - 1)" and lt: "sl - 1 < length lines" by auto
  have la: "line_at lines (int sl - 1) = Some ?l"
    by (subst e) (rule line_at_nat[OF lt])
  from assms have ne: "?l \<noteq> []" by auto
  have "js_substring ?l (int sc - 1) (int ec - 1 + 1)
               = take (nat (int ec - 1 + 1 - (int sc - 1))) (drop (nat (int sc - 1)) ?l)"
    using assms by (intro js_substring_within) auto
  moreover have "nat (int ec - 1 + 1 - (int sc - 1)) = ec + 1 - sc" using assms by auto
  moreover have "nat (int sc - 1) = sc - 1" by auto
  ultimately have sub: "js_substring ?l (int sc - 1) (int ec - 1 + 1)
               = take (ec + 1 - sc) (drop (sc - 1) ?l)"
    by simp
  have "selectedText lines (int sl - 1) (int sc - 1) (int sl - 1) (int ec - 1)
          = (case line_at lines (int sl - 1) of
               None \<Rightarrow> []
             | Some l \<Rightarrow> if l = [] then [] else js_substring l (int sc - 1) (int ec - 1 + 1))"
    by (simp add: selectedText_def)
  also have "\<dots> = js_substring ?l (int sc - 1) (int ec - 1 + 1)"
    unfolding la using ne by simp
  finally show ?thesis unfolding sub .
qed

lemma selectedText_multi:
  assumes "1 \<le> sl" and "sl < el" and "el \<le> length lines"
    and "1 \<le> sc" and "sc \<le> length (lines ! (sl - 1))"
    and "1 \<le> ec" and "ec \<le> length (lines ! (el - 1))"
    and "\<forall>i \<in> {sl ..< el - 1}. lines ! i \<noteq> []"
  shows "selectedText lines (int sl - 1) (int sc - 1) (int el - 1) (int ec - 1)
           = drop (sc - 1) (lines ! (sl - 1)) @ [CHR 0x0A]
             @ concat (map (\<lambda>i. lines ! i @ [CHR 0x0A]) [sl ..< el - 1])
             @ take ec (lines ! (el - 1))"
proof -
  let ?s = "int sl - 1" and ?e = "int el - 1"
  let ?piece = "line_piece lines ?s (int sc - 1) ?e (int ec - 1)"
  let ?ls = "lines ! (sl - 1)" and ?le = "lines ! (el - 1)"
  from assms have se: "?s < ?e" by auto
  have s_nat: "?s = int (sl - 1)" and e_nat: "?e = int (el - 1)" using assms by auto
  have lts: "sl - 1 < length lines" and lte: "el - 1 < length lines" using assms by auto
  have nes: "?ls \<noteq> []" and nee: "?le \<noteq> []" using assms by auto
  have split: "[?s .. ?e] = ?s # [?s + 1 .. ?e - 1] @ [?e]"
  proof -
    have "[?s .. ?e] = ?s # [?s + 1 .. ?e]" using se by (simp add: upto_rec1)
    also have "[?s + 1 .. ?e] = [?s + 1 .. ?e - 1] @ [?e]" using se by (simp add: upto_rec2)
    finally show ?thesis by simp
  qed
  have sub_s: "js_substring_from ?ls (int sc - 1) = drop (sc - 1) ?ls"
  proof -
    have "js_substring ?ls (int sc - 1) (int (length ?ls))
            = take (nat (int (length ?ls) - (int sc - 1))) (drop (nat (int sc - 1)) ?ls)"
      using assms by (intro js_substring_within) auto
    moreover have "nat (int sc - 1) = sc - 1" by auto
    ultimately show ?thesis by (simp add: js_substring_from_def)
  qed
  have sub_e: "js_substring ?le 0 (int ec - 1 + 1) = take ec ?le"
  proof -
    have "js_substring ?le 0 (int ec - 1 + 1)
            = take (nat (int ec - 1 + 1 - 0)) (drop (nat 0) ?le)"
      using assms by (intro js_substring_within) auto
    then show ?thesis by simp
  qed
  have ps: "?piece ?s = drop (sc - 1) ?ls @ [CHR 0x0A]"
    unfolding line_piece_def s_nat line_at_nat[OF lts]
    using nes sub_s by (simp add: s_nat)
  have pe: "?piece ?e = take ec ?le"
  proof -
    have "line_at lines ?e = Some ?le" unfolding e_nat by (rule line_at_nat[OF lte])
    then show ?thesis using nee se sub_e by (simp add: line_piece_def)
  qed
  have mid: "map ?piece [?s + 1 .. ?e - 1]
               = map (\<lambda>i. lines ! nat i @ [CHR 0x0A]) [?s + 1 .. ?e - 1]"
  proof (rule map_cong[OF refl])
    fix i assume "i \<in> set [?s + 1 .. ?e - 1]"
    then have b: "?s < i" "i < ?e" by auto
    then have n: "nat i \<in> {sl ..< el - 1}" by auto
    with assms(8) have ne: "lines ! nat i \<noteq> []" by blast
    from b assms have "0 \<le> i" "i < int (length lines)" by auto
    then have "line_at lines i = Some (lines ! nat i)" by (simp add: line_at_def)
    then show "?piece i = lines ! nat i @ [CHR 0x0A]"
      using ne b by (simp add: line_piece_def)
  qed
  have rng: "[?s + 1 .. ?e - 1] = [int sl .. int (el - 1) - 1]" using assms by auto
  have mid2: "map (\<lambda>i. lines ! nat i @ [CHR 0x0A]) [?s + 1 .. ?e - 1]
                = map (\<lambda>i. lines ! i @ [CHR 0x0A]) [sl ..< el - 1]"
  proof -
    have "map (\<lambda>i. lines ! nat i @ [CHR 0x0A]) [int sl .. int (el - 1) - 1]
            = map (\<lambda>i. lines ! i @ [CHR 0x0A]) (map nat [int sl .. int (el - 1) - 1])"
      by (simp add: comp_def)
    then show ?thesis unfolding rng map_nat_upto .
  qed
  have "selectedText lines ?s (int sc - 1) ?e (int ec - 1) = concat (map ?piece [?s .. ?e])"
    using se by (simp add: selectedText_def)
  also have "\<dots> = ?piece ?s @ concat (map ?piece [?s + 1 .. ?e - 1]) @ ?piece ?e"
    unfolding split by simp
  finally show ?thesis unfolding ps pe mid mid2 by simp
qed

lemma range_text_multi:
  assumes "sl \<noteq> el"
  shows "range_text lines sl sc el ec
           = drop (sc - 1) (lines ! (sl - 1)) @ [CHR 0x0A]
             @ concat (map (\<lambda>i. lines ! i @ [CHR 0x0A]) [sl ..< el - 1])
             @ take ec (lines ! (el - 1))"
proof -
  let ?x = "drop (sc - 1) (lines ! (sl - 1))" and ?y = "take ec (lines ! (el - 1))"
  let ?xs = "map (\<lambda>i. lines ! i) [sl ..< el - 1]"
  have "range_text lines sl sc el ec = join [CHR 0x0A] (?x # ?xs @ [?y])"
    using assms by (simp add: range_text_def)
  also have "\<dots> = ?x @ [CHR 0x0A] @ concat (map (\<lambda>l. l @ [CHR 0x0A]) ?xs) @ ?y"
    by (rule join_ends)
  also have "map (\<lambda>l. l @ [CHR 0x0A]) ?xs = map (\<lambda>i. lines ! i @ [CHR 0x0A]) [sl ..< el - 1]"
    by (simp add: comp_def)
  finally show ?thesis .
qed

lemma selectedText_range_text:
  assumes "valid_range lines sl sc el ec"
    and "\<forall>i \<in> {sl ..< el - 1}. lines ! i \<noteq> []"
  shows "selectedText lines (int sl - 1) (int sc - 1) (int el - 1) (int ec - 1)
           = range_text lines sl sc el ec"
proof (cases "sl = el")
  case True
  with assms(1) show ?thesis
    using selectedText_single[of sl lines sc ec]
    by (simp add: valid_range_def range_text_def)
next
  case False
  with assms(1) have "sl < el" by (simp add: valid_range_def)
  with assms show ?thesis
    using selectedText_multi[of sl el lines sc ec]
    by (simp add: valid_range_def range_text_multi[OF False])
qed

lemma extract_range_matched:
  assumes "match_range r = Some (dec a, dec b, m3, dec d)"
  shows "extract_range lines r
     = (let endLine = (case m3 of Some x \<Rightarrow> int (parseInt x) - 1 | None \<Rightarrow> int a - 1);
            txt = selectedText lines (int a - 1) (int b - 1) endLine (int d - 1)
        in if js_trim txt \<noteq> []
           then [\<lparr>item_range = r, item_content = txt,
                  lineCount = nat (\<bar>endLine - (int a - 1)\<bar> + 1)\<rparr>]
           else [])"
  by (cases m3) (simp_all add: extract_range_def assms parseInt_dec Let_def)

lemma match_range_formatted:
  "match_range (format_range (position_value sl sc, position_value el ec))
     = Some (dec sl, dec sc, if sl = el then None else Some (dec el), dec ec)"
proof (cases "sl = el")
  case True
  have "format_range (position_value sl sc, position_value el ec)
          = ''L'' @ dec sl @ '':C'' @ dec sc @ ''-'' @ dec ec"
    using True by (simp add: format_range_positions)
  then show ?thesis
    using match_range_here[OF match_here_single[of sl sc ec]] True by simp
next
  case False
  have "format_range (position_value sl sc, position_value el ec)
          = ''L'' @ dec sl @ '':C'' @ dec sc @ ''-L'' @ dec el @ '':C'' @ dec ec"
    using False by (simp add: format_range_positions)
  then show ?thesis
    using match_range_here[OF match_here_multi[of sl sc el ec]] False by simp
qed

lemma extract_range_formatted:
  "extract_range lines (format_range (position_value sl sc, position_value el ec))
     = (let txt = selectedText lines (int sl - 1) (int sc - 1) (int el - 1) (int ec - 1)
        in if js_trim txt \<noteq> []
           then [\<lparr>item_range = format_range (position_value sl sc, position_value el ec),
                  item_content = txt, lineCount = nat (\<bar>int el - int sl\<bar> + 1)\<rparr>]
           else [])"
proof -
  have d: "\<bar>int el - 1 - (int sl - 1)\<bar> = \<bar>int el - int sl\<bar>" by simp
  show ?thesis
    unfolding extract_range_matched[OF match_range_formatted]
    by (cases "sl = el") (simp_all add: parseInt_dec Let_def d)
qed

text \<open>
  Claim C2, as the code has it. Let a readable file have content \<open>c\<close>, let the range be
  valid for the lines of \<open>c\<close>, and let every line strictly between its start and end line
  be non-empty. Then \<open>extractSelectedContent\<close>, given the range string \<open>getSelections\<close>
  writes for the range, returns exactly the text the range describes together with the
  number of lines it spans, unless that text is blank (white space only), in which case
  the range is dropped from the result.
\<close>

theorem extracted_content_is_range_text:
  assumes "fs_file env p = Content c"
    and "valid_range (split_on (CHR 0x0A) c) sl sc el ec"
    and "\<forall>i \<in> {sl ..< el - 1}. split_on (CHR 0x0A) c ! i \<noteq> []"
  shows "extractSelectedContent env p [format_range (position_value sl sc, position_value el ec)]
           = Some (if js_trim (range_text (split_on (CHR 0x0A) c) sl sc el ec) \<noteq> []
                   then [\<lparr>item_range = format_range (position_value sl sc, position_value el ec),
                          item_content = range_text (split_on (CHR 0x0A) c) sl sc el ec,
                          lineCount = el - sl + 1\<rparr>]
                   else [])"
proof -
  from assms(2) have "sl \<le> el" by (simp add: valid_range_def)
  then have lc: "nat (\<bar>int el - int sl\<bar> + 1) = el - sl + 1" by auto
  show ?thesis
    unfolding extractSelectedContent_def assms(1)
    by (simp add: extract_range_formatted selectedText_range_text[OF assms(2,3)] lc Let_def)
qed

theorem extracted_content_is_range_text_witness:
  "fs_file text_env ''/repo/src/a.js'' = Content source_text
   \<and> valid_range (split_on (CHR 0x0A) source_text) 1 7 3 6
   \<and> format_range (position_value 1 7, position_value 3 6) = ''L1:C7-L3:C6''
   \<and> extractSelectedContent text_env ''/repo/src/a.js'' [''L1:C7-L3:C6'']
       = Some [\<lparr>item_range = ''L1:C7-L3:C6'',
                 item_content = ''a = 1;\<newline>const b = 2;\<newline>export'',
                 lineCount = 3\<rparr>]"
proof -
  have h1: "fs_file text_env ''/repo/src/a.js'' = Content source_text"
    by code_simp
  have h2: "valid_range (split_on (CHR 0x0A) source_text) 1 7 3 6"
    by code_simp
  have h3: "\<forall>i \<in> {1 ..< 3 - 1}. split_on (CHR 0x0A) source_text ! i \<noteq> []"
    by code_simp
  have f: "format_range (position_value 1 7, position_value 3 6) = ''L1:C7-L3:C6''"
    by code_simp
  have t: "range_text (split_on (CHR 0x0A) source_text) 1 7 3 6
             = ''a = 1;\<newline>const b = 2;\<newline>export''"
    by code_simp
  have w: "js_trim ''a = 1;\<newline>const b = 2;\<newline>export'' \<noteq> []"
    by code_simp
  from extracted_content_is_range_text[OF h1 h2 h3]
  have "extractSelectedContent text_env ''/repo/src/a.js'' [''L1:C7-L3:C6'']
       = Some [\<lparr>item_range = ''L1:C7-L3:C6'',
                 item_content = ''a = 1;\<newline>const b = 2;\<newline>export'',
                 lineCount = 3\<rparr>]"
    unfolding f t using w by simp
  with h1 h2 f show ?thesis by blast
qed

text \<open>
  Claim C2, as stated, fails for a valid range whose text is blank: in the file \<open>a  b\<close>
  the range from column 2 to column 3 of line 1 describes the two blanks, and the result
  holds no entry for it.
\<close>

theorem blank_range_dropped_counterexample:
  "fs_file text_env ''/repo/notes.txt'' = Content ''a  b''
   \<and> valid_range (split_on (CHR 0x0A) ''a  b'') 1 2 1 3
   \<and> range_text (split_on (CHR 0x0A) ''a  b'') 1 2 1 3 = ''  ''
   \<and> format_range (position_value 1 2, position_value 1 3) = ''L1:C2-3''
   \<and> extractSelectedContent text_env ''/repo/notes.txt'' [''L1:C2-3''] = Some []"
  by code_simp

text \<open>
  An empty line between the start and the end line is skipped by the loop together with
  its line break: the hypothesis on the lines in between cannot be dropped.
\<close>

lemma empty_interior_line_skipped:
  "valid_range (split_on (CHR 0x0A) ''ab\<newline>\<newline>cd'') 1 1 3 2
   \<and> range_text (split_on (CHR 0x0A) ''ab\<newline>\<newline>cd'') 1 1 3 2 = ''ab\<newline>\<newline>cd''
   \<and> extractSelectedContent text_env ''/repo/gap.txt'' [''L1:C1-L3:C2'']
       = Some [\<lparr>item_range = ''L1:C1-L3:C2'', item_content = ''ab\<newline>cd'', lineCount = 3\<rparr>]"
  by code_simp

section \<open>Text output\<close>

lemma file_status_cong:
  assumes "chalk_yellow env' = chalk_yellow env" and "chalk_cyan env' = chalk_cyan env"
  shows "file_status env' f = file_status env f"
  by (cases "selections f") (simp_all add: file_status_def assms)

lemma file_content_block_cong:
  assumes "\<forall>p. path f = JStr p \<longrightarrow> fs_file env' p = fs_file env p"
  shows "file_content_block env' f = file_content_block env f"
proof (cases "path f")
  case (JStr p)
  with assms have "fs_file env' p = fs_file env p" by simp
  with JStr show ?thesis by (simp add: file_content_block_def)
qed (simp_all add: file_content_block_def)

lemma file_entry_cong:
  assumes "chalk_yellow env' = chalk_yellow env" and "chalk_cyan env' = chalk_cyan env"
    and "\<forall>p. path f = JStr p \<longrightarrow> fs_file env' p = fs_file env p"
  shows "file_entry env' options (i, f) = file_entry env options (i, f)"
  by (simp add: file_entry_def statusStr_def file_status_cong[OF assms(1,2)]
      file_content_block_cong[OF assms(3)])

lemma fileList_cong:
  assumes "chalk_gray env' = chalk_gray env"
    and "chalk_yellow env' = chalk_yellow env" and "chalk_cyan env' = chalk_cyan env"
    and "\<forall>f \<in> set files. \<forall>p. path f = JStr p \<longrightarrow> fs_file env' p = fs_file env p"
  shows "fileList env' files ttl options = fileList env files ttl options"
proof -
  have h: "map (file_entry env' options) (enumerate 0 files)
      = map (file_entry env options) (enumerate 0 files)"
  proof (rule map_cong[OF refl])
    fix x assume "x \<in> set (enumerate 0 files)"
    then have "fst x < length files" and "files ! fst x = snd x"
      by (simp_all add: in_set_enumerate_eq)
    then have "snd x \<in> set files" using nth_mem by metis
    with assms(4) have "\<forall>p. path (snd x) = JStr p \<longrightarrow> fs_file env' p = fs_file env p" by blast
    from file_entry_cong[OF assms(2,3) this, of options "fst x"]
    show "file_entry env' options x = file_entry env options x" by simp
  qed
  show ?thesis by (simp only: fileList_def h assms(1))
qed

lemma selection_entry_cong:
  assumes "chalk_magenta env' = chalk_magenta env"
    and "chalk_hex_86efac env' = chalk_hex_86efac env"
  shows "selection_entry env' options n isel = selection_entry env options n isel"
  by (cases isel) (simp add: selection_entry_def assms cong: option.case_cong)

lemma fmt_selections_cong:
  assumes "chalk_magenta env' = chalk_magenta env"
    and "chalk_hex_86efac env' = chalk_hex_86efac env"
  shows "fmt_selections env' sels options = fmt_selections env sels options"
  by (simp add: fmt_selections_def selection_entry_cong[OF assms] cong: map_cong)

lemma shown_subset: "set (shown options files) \<subseteq> set files"
  by (auto simp: shown_def)

text \<open>
  Claim C8, as the code has it. The text of \<open>LLMFormatter.raw\<close>, and of its parts
  \<open>fileList\<close>, \<open>selections\<close> and \<open>workspace\<close>, is a function of the snapshot, the
  options, the styling functions of \<open>chalk\<close> and the state, at the time of rendering, of
  the files the snapshot lists as open or pinned: two environments that agree on the
  styling and on those files give the same text, whatever else differs.
\<close>

theorem rendering_determined_by_snapshot_and_listed_files:
  assumes "chalk_gray env' = chalk_gray env" and "chalk_yellow env' = chalk_yellow env"
    and "chalk_cyan env' = chalk_cyan env" and "chalk_blue env' = chalk_blue env"
    and "chalk_magenta env' = chalk_magenta env"
    and "chalk_hex_86efac env' = chalk_hex_86efac env"
    and "\<forall>f \<in> set (openFiles data) \<union> set (pinnedFiles data).
           \<forall>p. path f = JStr p \<longrightarrow> fs_file env' p = fs_file env p"
  shows "raw env' data options = raw env data options
       \<and> fileList env' (openFiles data) ttl options = fileList env (openFiles data) ttl options
       \<and> fileList env' (pinnedFiles data) ttl options
           = fileList env (pinnedFiles data) ttl options
       \<and> fmt_selections env' (ctx_selections data) options
           = fmt_selections env (ctx_selections data) options
       \<and> fmt_workspace env' (ctx_workspace data) = fmt_workspace env (ctx_workspace data)"
proof (intro conjI)
  from assms(7) shown_subset[of options "openFiles data"]
  have o: "\<forall>f \<in> set (shown options (openFiles data)).
             \<forall>p. path f = JStr p \<longrightarrow> fs_file env' p = fs_file env p" by blast
  from assms(7) shown_subset[of options "pinnedFiles data"]
  have p: "\<forall>f \<in> set (shown options (pinnedFiles data)).
             \<forall>p. path f = JStr p \<longrightarrow> fs_file env' p = fs_file env p" by blast
  have 1: "fileList env' (shown options (openFiles data)) t opts
         = fileList env (shown options (openFiles data)) t opts" for t opts
    by (rule fileList_cong[OF assms(1,2,3) o])
  have 2: "pinned_section env' data options = pinned_section env data options"
    by (simp add: pinned_section_def fileList_cong[OF assms(1,2,3) p])
  have 3: "selections_section env' data options = selections_section env data options"
    by (simp add: selections_section_def fmt_selections_cong[OF assms(5,6)])
  have 4: "summary_counts env' data options = summary_counts env data options"
    by (simp add: summary_counts_def assms(1))
  show 5: "fmt_workspace env' (ctx_workspace data) = fmt_workspace env (ctx_workspace data)"
    by (simp add: fmt_workspace_def assms(1))
  show "raw env' data options = raw env data options"
    by (simp add: raw_def 1 2 3 4 5 assms(4))
  from assms(7) have "\<forall>f \<in> set (openFiles data).
             \<forall>p. path f = JStr p \<longrightarrow> fs_file env' p = fs_file env p" by blast
  then show "fileList env' (openFiles data) ttl options
           = fileList env (openFiles data) ttl options"
    by (rule fileList_cong[OF assms(1,2,3)])
  from assms(7) have "\<forall>f \<in> set (pinnedFiles data).
             \<forall>p. path f = JStr p \<longrightarrow> fs_file env' p = fs_file env p" by blast
  then show "fileList env' (pinnedFiles data) ttl options
           = fileList env (pinnedFiles data) ttl options"
    by (rule fileList_cong[OF assms(1,2,3)])
  show "fmt_selections env' (ctx_selections data) options
           = fmt_selections env (ctx_selections data) options"
    by (rule fmt_selections_cong[OF assms(5,6)])
qed

theorem rendering_determined_by_snapshot_and_listed_files_witness:
  "chalk_gray (files_env [(''/repo/README.md'', ''# vctx''), (''/repo/LICENSE'', ''MIT'')])
     = chalk_gray (readme_env ''# vctx'')
   \<and> fs_file (files_env [(''/repo/README.md'', ''# vctx''), (''/repo/LICENSE'', ''MIT'')])
        ''/repo/LICENSE'' \<noteq> fs_file (readme_env ''# vctx'') ''/repo/LICENSE''
   \<and> raw (files_env [(''/repo/README.md'', ''# vctx''), (''/repo/LICENSE'', ''MIT'')])
        pinned_context smart_options
     = raw (readme_env ''# vctx'') pinned_context smart_options"
proof -
  let ?env' = "files_env [(''/repo/README.md'', ''# vctx''), (''/repo/LICENSE'', ''MIT'')]"
  let ?env = "readme_env ''# vctx''"
  have c: "chalk_gray ?env' = chalk_gray ?env" "chalk_yellow ?env' = chalk_yellow ?env"
    "chalk_cyan ?env' = chalk_cyan ?env" "chalk_blue ?env' = chalk_blue ?env"
    "chalk_magenta ?env' = chalk_magenta ?env"
    "chalk_hex_86efac ?env' = chalk_hex_86efac ?env"
    by (simp_all add: files_env_def readme_env_def example_env_def)
  have f: "\<forall>f \<in> set (openFiles pinned_context) \<union> set (pinnedFiles pinned_context).
             \<forall>p. path f = JStr p \<longrightarrow> fs_file ?env' p = fs_file ?env p"
    by (simp add: pinned_context_def readme_tab_def files_env_def readme_env_def
        example_env_def)
  have d: "fs_file ?env' ''/repo/LICENSE'' \<noteq> fs_file ?env ''/repo/LICENSE''"
    by (simp add: files_env_def readme_env_def example_env_def)
  from rendering_determined_by_snapshot_and_listed_files[OF c f, of smart_options] c(1) d
  show ?thesis by blast
qed

text \<open>
  Claim C8, as stated, fails: the content of a pinned file is read from disk while the
  text is rendered, so the same snapshot and the same options give two different texts
  once \<open>README.md\<close> has changed on disk.
\<close>

theorem rendering_reads_files_counterexample:
  "raw (readme_env ''# vctx'') pinned_context smart_options
     \<noteq> raw (readme_env ''# vctx 2'') pinned_context smart_options"
  by code_simp

lemma pinned_entry_tagged:
  assumes "pinned f"
  shows "\<exists>rest. file_entry env options (i, f)
           = ''  '' @ dec (i + 1) @ ''. '' @ js_toString (path f) @ '' ''
             @ chalk_yellow env ''[PINNED]'' @ rest"
proof -
  obtain more where s: "file_status env f = chalk_yellow env ''[PINNED]'' # more"
    using assms by (simp add: file_status_def)
  have j: "\<exists>r. join sep (x # xs) = x @ r" for sep x and xs :: "string list"
    by (cases xs) auto
  from j[of "'' ''" "chalk_yellow env ''[PINNED]''" more] obtain r where
    "join '' '' (file_status env f) = chalk_yellow env ''[PINNED]'' @ r" using s by auto
  then show ?thesis by (simp add: file_entry_def statusStr_def s)
qed

text \<open>
  Claim C9, as the code has it. In smart mode (\<open>smartMode\<close> not \<open>false\<close>) the text of
  \<open>LLMFormatter.raw\<close> is the header, the workspace, the list of open editors, the
  selections if any, the counts and the footer: there is no list of pinned editors.
  A non-empty list of open editors is its heading followed by one entry per tab, and the
  entry of a pinned tab carries the tag \<open>[PINNED]\<close> behind its path. The count lines of
  pinned tabs and of selections are left out when their count is zero; the line
  \<open>TOTAL_OPEN\<close> is always there.
\<close>

theorem smart_mode_output:
  assumes "smartMode options \<noteq> Some False"
  shows "raw env data options
           = chalk_blue env ''=== VS CODE RAW CONTEXT ==='' @ [CHR 0x0A]
             @ fmt_workspace env (ctx_workspace data) @ [CHR 0x0A]
             @ fileList env (shown options (openFiles data)) ''OPEN_EDITORS''
                 (options\<lparr>includePinnedContent := True\<rparr>)
             @ [CHR 0x0A]
             @ selections_section env data options
             @ chalk_gray env ''TOTAL_OPEN:'' @ '' ''
             @ dec (length (shown options (openFiles data))) @ [CHR 0x0A]
             @ (if shown options (pinnedFiles data) = [] then []
                else chalk_gray env ''TOTAL_PINNED:'' @ '' ''
                     @ dec (length (shown options (pinnedFiles data))) @ [CHR 0x0A])
             @ (if ctx_selections data = [] then []
                else chalk_gray env ''TOTAL_SELECTED:'' @ '' ''
                     @ dec (length (ctx_selections data)) @ [CHR 0x0A])
             @ chalk_blue env ''=== END RAW CONTEXT ==='' @ [CHR 0x0A]
       \<and> (shown options (openFiles data) \<noteq> [] \<longrightarrow>
            fileList env (shown options (openFiles data)) ''OPEN_EDITORS''
                 (options\<lparr>includePinnedContent := True\<rparr>)
              = chalk_gray env ''OPEN_EDITORS:'' @ [CHR 0x0A]
                @ concat (map (file_entry env (options\<lparr>includePinnedContent := True\<rparr>))
                            (enumerate 0 (shown options (openFiles data)))))
       \<and> (\<forall>f i. pinned f \<longrightarrow>
            (\<exists>rest. file_entry env (options\<lparr>includePinnedContent := True\<rparr>) (i, f)
               = ''  '' @ dec (i + 1) @ ''. '' @ js_toString (path f) @ '' ''
                 @ chalk_yellow env ''[PINNED]'' @ rest))"
proof (intro conjI allI impI)
  have p: "pinned_section env data options = []"
    using assms by (simp add: pinned_section_def)
  have c: "summary_counts env data options
      = chalk_gray env ''TOTAL_OPEN:'' @ '' ''
             @ dec (length (shown options (openFiles data))) @ [CHR 0x0A]
             @ (if shown options (pinnedFiles data) = [] then []
                else chalk_gray env ''TOTAL_PINNED:'' @ '' ''
                     @ dec (length (shown options (pinnedFiles data))) @ [CHR 0x0A])
             @ (if ctx_selections data = [] then []
                else chalk_gray env ''TOTAL_SELECTED:'' @ '' ''
                     @ dec (length (ctx_selections data)) @ [CHR 0x0A])"
    by (simp add: summary_counts_def)
  show "raw env data options
           = chalk_blue env ''=== VS CODE RAW CONTEXT ==='' @ [CHR 0x0A]
             @ fmt_workspace env (ctx_workspace data) @ [CHR 0x0A]
             @ fileList env (shown options (openFiles data)) ''OPEN_EDITORS''
                 (options\<lparr>includePinnedContent := True\<rparr>)
             @ [CHR 0x0A]
             @ selections_section env data options
             @ chalk_gray env ''TOTAL_OPEN:'' @ '' ''
             @ dec (length (shown options (openFiles data))) @ [CHR 0x0A]
             @ (if shown options (pinnedFiles data) = [] then []
                else chalk_gray env ''TOTAL_PINNED:'' @ '' ''
                     @ dec (length (shown options (pinnedFiles data))) @ [CHR 0x0A])
             @ (if ctx_selections data = [] then []
                else chalk_gray env ''TOTAL_SELECTED:'' @ '' ''
                     @ dec (length (ctx_selections data)) @ [CHR 0x0A])
             @ chalk_blue env ''=== END RAW CONTEXT ==='' @ [CHR 0x0A]"
    unfolding raw_def p c by simp
next
  assume "shown options (openFiles data) \<noteq> []"
  then show "fileList env (shown options (openFiles data)) ''OPEN_EDITORS''
                 (options\<lparr>includePinnedContent := True\<rparr>)
              = chalk_gray env ''OPEN_EDITORS:'' @ [CHR 0x0A]
                @ concat (map (file_entry env (options\<lparr>includePinnedContent := True\<rparr>))
                            (enumerate 0 (shown options (openFiles data))))"
    by (simp add: fileList_def)
next
  fix f :: open_file and i :: nat
  assume "pinned f"
  then show "\<exists>rest. file_entry env (options\<lparr>includePinnedContent := True\<rparr>) (i, f)
               = ''  '' @ dec (i + 1) @ ''. '' @ js_toString (path f) @ '' ''
                 @ chalk_yellow env ''[PINNED]'' @ rest"
    by (rule pinned_entry_tagged)
qed

theorem smart_mode_output_witness:
  "smartMode smart_options \<noteq> Some False
   \<and> shown smart_options (openFiles pinned_context) \<noteq> []
   \<and> pinned readme_tab
   \<and> fileList (readme_env []) (shown smart_options (openFiles pinned_context)) ''OPEN_EDITORS''
         (smart_options\<lparr>includePinnedContent := True\<rparr>)
       = chalk_gray (readme_env []) ''OPEN_EDITORS:'' @ [CHR 0x0A]
         @ concat (map (file_entry (readme_env []) (smart_options\<lparr>includePinnedContent := True\<rparr>))
                     (enumerate 0 (shown smart_options (openFiles pinned_context))))
   \<and> (\<exists>rest. file_entry (readme_env []) (smart_options\<lparr>includePinnedContent := True\<rparr>)
                 (0, readme_tab)
               = ''  '' @ dec (0 + 1) @ ''. '' @ js_toString (path readme_tab) @ '' ''
                 @ chalk_yellow (readme_env []) ''[PINNED]'' @ rest)"
proof -
  have h1: "smartMode smart_options \<noteq> Some False"
    by (simp add: smart_options_def)
  have h2: "shown smart_options (openFiles pinned_context) \<noteq> []"
    by code_simp
  have h3: "pinned readme_tab"
    by (simp add: readme_tab_def)
  note t = smart_mode_output[OF h1, of "readme_env []" pinned_context]
  from t h2 have c2: "fileList (readme_env []) (shown smart_options (openFiles pinned_context))
         ''OPEN_EDITORS'' (smart_options\<lparr>includePinnedContent := True\<rparr>)
       = chalk_gray (readme_env []) ''OPEN_EDITORS:'' @ [CHR 0x0A]
         @ concat (map (file_entry (readme_env []) (smart_options\<lparr>includePinnedContent := True\<rparr>))
                     (enumerate 0 (shown smart_options (openFiles pinned_context))))"
    by blast
  from t h3 have c3: "\<exists>rest. file_entry (readme_env []) (smart_options\<lparr>includePinnedContent := True\<rparr>)
                 (0, readme_tab)
               = ''  '' @ dec (0 + 1) @ ''. '' @ js_toString (path readme_tab) @ '' ''
                 @ chalk_yellow (readme_env []) ''[PINNED]'' @ rest"
    by blast
  from h1 h2 h3 c2 c3 show ?thesis by blast
qed

text \<open>
  Claim C9, as stated, fails for the count of open editors: a snapshot with no open
  editor, rendered in smart mode, still shows the line \<open>TOTAL_OPEN: 0\<close>.
\<close>

theorem total_open_always_shown_counterexample:
  "shown smart_options (openFiles empty_context) = []
   \<and> raw (readme_env []) empty_context smart_options
     = ''=== VS CODE RAW CONTEXT ===\<newline>WORKSPACE: /repo\<newline>WORKSPACE_ID: 1\<newline>\<newline>OPEN_EDITORS: none\<newline>\<newline>TOTAL_OPEN: 0\<newline>=== END RAW CONTEXT ===\<newline>''"
  by code_simp

end
